theory Spec2Isabelle
  imports Complex_Main
begin

section \<open>Cave survey reduction, validation and ingestion (app.py)\<close>

text \<open>
  The embedding follows \<^verbatim>\<open>src/app.py\<close>: \<^verbatim>\<open>shot_to_cartesian\<close>, the handler
  \<^verbatim>\<open>survey_submit\<close> and the handler \<^verbatim>\<open>admin_survey_update\<close>.

  Conventions of the model.
  \<^item> \<^verbatim>\<open>None\<close> is \<^term>\<open>None\<close>. The geometry reducer computes over the reals. A number
    read from the form is a \<open>pyfloat\<close>: a real, an infinity or \<^verbatim>\<open>nan\<close>, compared as
    Python compares floats. Rounding is outside the model.
  \<^item> The builtin \<^verbatim>\<open>float(s)\<close> is a parameter \<open>pf\<close> of type
    \<open>string \<Rightarrow> string + pyfloat\<close>: \<open>Inl m\<close> is a \<^verbatim>\<open>ValueError\<close> whose text is \<open>m\<close>.
  \<^item> The database driver is psycopg2 on PostgreSQL, as the imports of \<^verbatim>\<open>app.py\<close>, its
    connection pool and \<^verbatim>\<open>populate_dummy_data.py\<close> have it.
  \<^item> A string is a list of characters, each a code point below 256, so that \<open>length\<close>
    counts what \<^verbatim>\<open>len\<close> counts; the degree sign of the messages is the code point
    \<open>0xB0\<close>.
  \<^item> An exception is a value of \<open>exn + 'a\<close>.
\<close>

subsection \<open>Strings\<close>

definition isspace :: "char \<Rightarrow> bool" where
  "isspace c \<longleftrightarrow> c \<in> set [CHR 0x09, CHR 0x0A, CHR 0x0B, CHR 0x0C, CHR 0x0D,
                          CHR 0x1C, CHR 0x1D, CHR 0x1E, CHR 0x1F, CHR 0x20,
                          CHR 0x85, CHR 0xA0]"

text \<open>\<^verbatim>\<open>str.strip()\<close>: leading and trailing whitespace removed.\<close>

definition strip :: "string \<Rightarrow> string" where
  "strip s = rev (dropWhile isspace (rev (dropWhile isspace s)))"

text \<open>Decimal rendering of a natural number, as an f-string renders an \<^verbatim>\<open>int\<close>.\<close>

definition digit_char :: "nat \<Rightarrow> char" where
  "digit_char d = ''0123456789'' ! d"

fun str_nat :: "nat \<Rightarrow> string" where
  "str_nat n = (if n < 10 then [digit_char n] else str_nat (n div 10) @ [digit_char (n mod 10)])"

declare str_nat.simps [simp del]

definition deg :: string where
  "deg = [CHR 0xB0]"

subsection \<open>Geometry reducer\<close>

definition radians :: "real \<Rightarrow> real" where
  "radians d = d * pi / 180"

text \<open>
  \<^verbatim>\<open>
  def shot_to_cartesian(distance, azimuth_deg, inclination_deg):
      if distance is None or azimuth_deg is None or inclination_deg is None:
          return 0.0, 0.0, 0.0
      inc_rad = math.radians(inclination_deg)
      az_rad = math.radians(azimuth_deg)
      horizontal_distance = distance * math.cos(inc_rad)
      dx = horizontal_distance * math.sin(az_rad)
      dy = horizontal_distance * math.cos(az_rad)
      dz = distance * math.sin(inc_rad)
      return dx, dy, dz
  \<close>
\<close>

fun shot_to_cartesian :: "real option \<Rightarrow> real option \<Rightarrow> real option \<Rightarrow> real \<times> real \<times> real" where
  "shot_to_cartesian (Some distance) (Some azimuth_deg) (Some inclination_deg) =
     (let inc_rad = radians inclination_deg;
          az_rad = radians azimuth_deg;
          horizontal_distance = distance * cos inc_rad;
          dx = horizontal_distance * sin az_rad;
          dy = horizontal_distance * cos az_rad;
          dz = distance * sin inc_rad
      in (dx, dy, dz))"
| "shot_to_cartesian _ _ _ = (0, 0, 0)"

subsection \<open>Exceptions\<close>

datatype exn = IndexError | ValueError string | NameError string | TypeError string

subsection \<open>Floats\<close>

text \<open>
  The values \<^verbatim>\<open>float(s)\<close> can return: a finite number, \<^verbatim>\<open>inf\<close>, \<^verbatim>\<open>-inf\<close> or
  \<^verbatim>\<open>nan\<close>. Every comparison with \<^verbatim>\<open>nan\<close> is false.
\<close>

datatype pyfloat = Finite real | PInf | NInf | NaN

fun flt :: "pyfloat \<Rightarrow> pyfloat \<Rightarrow> bool" where
  "flt NaN b = False"
| "flt a NaN = False"
| "flt (Finite x) (Finite y) = (x < y)"
| "flt (Finite x) PInf = True"
| "flt (Finite x) NInf = False"
| "flt PInf b = False"
| "flt NInf NInf = False"
| "flt NInf b = True"

fun fle :: "pyfloat \<Rightarrow> pyfloat \<Rightarrow> bool" where
  "fle NaN b = False"
| "fle a NaN = False"
| "fle (Finite x) (Finite y) = (x \<le> y)"
| "fle (Finite x) PInf = True"
| "fle (Finite x) NInf = False"
| "fle PInf PInf = True"
| "fle PInf b = False"
| "fle NInf b = True"

definition fgt :: "pyfloat \<Rightarrow> pyfloat \<Rightarrow> bool" where
  "fgt a b = flt b a"

definition fge :: "pyfloat \<Rightarrow> pyfloat \<Rightarrow> bool" where
  "fge a b = fle b a"

fun fneg :: "pyfloat \<Rightarrow> pyfloat" where
  "fneg (Finite x) = Finite (- x)"
| "fneg PInf = NInf"
| "fneg NInf = PInf"
| "fneg NaN = NaN"

fun fadd :: "pyfloat \<Rightarrow> pyfloat \<Rightarrow> pyfloat" where
  "fadd NaN b = NaN"
| "fadd a NaN = NaN"
| "fadd (Finite x) (Finite y) = Finite (x + y)"
| "fadd (Finite x) b = b"
| "fadd a (Finite y) = a"
| "fadd PInf PInf = PInf"
| "fadd NInf NInf = NInf"
| "fadd PInf NInf = NaN"
| "fadd NInf PInf = NaN"

definition fsub :: "pyfloat \<Rightarrow> pyfloat \<Rightarrow> pyfloat" where
  "fsub a b = fadd a (fneg b)"

fun fabs :: "pyfloat \<Rightarrow> pyfloat" where
  "fabs (Finite x) = Finite \<bar>x\<bar>"
| "fabs PInf = PInf"
| "fabs NInf = PInf"
| "fabs NaN = NaN"

text \<open>
  The builtin \<^verbatim>\<open>min(a, b, c)\<close>: it keeps the first argument and replaces it by a later
  one only when that one compares less.
\<close>

definition py_min :: "pyfloat \<Rightarrow> pyfloat \<Rightarrow> pyfloat" where
  "py_min a b = (if flt b a then b else a)"

definition py_min3 :: "pyfloat \<Rightarrow> pyfloat \<Rightarrow> pyfloat \<Rightarrow> pyfloat" where
  "py_min3 a b c = py_min (py_min a b) c"

subsection \<open>Indexing and number parsing\<close>

type_synonym parser = "string \<Rightarrow> string + pyfloat"

definition bind_exn :: "exn + 'a \<Rightarrow> ('a \<Rightarrow> exn + 'b) \<Rightarrow> exn + 'b" where
  "bind_exn m f = (case m of Inl e \<Rightarrow> Inl e | Inr x \<Rightarrow> f x)"

text \<open>\<^verbatim>\<open>xs[i]\<close> for a non-negative \<open>i\<close>: raises \<^verbatim>\<open>IndexError\<close> out of range.\<close>

definition py_index :: "'a list \<Rightarrow> nat \<Rightarrow> exn + 'a" where
  "py_index xs i = (if i < length xs then Inr (xs ! i) else Inl IndexError)"

definition py_float :: "parser \<Rightarrow> string \<Rightarrow> exn + pyfloat" where
  "py_float pf s = (case pf s of Inl m \<Rightarrow> Inl (ValueError m) | Inr x \<Rightarrow> Inr x)"

subsection \<open>The request form\<close>

text \<open>
  \<^verbatim>\<open>request.form\<close> is a multi-dict: each key has the list of the values sent for it.
  \<^verbatim>\<open>form.get(k)\<close> is the first value or \<^verbatim>\<open>None\<close>, \<^verbatim>\<open>form.get(k, '')\<close> the first value
  or the empty string, \<^verbatim>\<open>form.getlist(k)\<close> the whole list.
\<close>

type_synonym form = "string \<Rightarrow> string list"

definition form_get :: "form \<Rightarrow> string \<Rightarrow> string option" where
  "form_get F k = (case F k of [] \<Rightarrow> None | v # _ \<Rightarrow> Some v)"

definition form_get_default :: "form \<Rightarrow> string \<Rightarrow> string \<Rightarrow> string" where
  "form_get_default F k d = (case F k of [] \<Rightarrow> d | v # _ \<Rightarrow> v)"

definition getlist :: "form \<Rightarrow> string \<Rightarrow> string list" where
  "getlist F k = F k"

text \<open>\<^verbatim>\<open>request.form.get(k, '').strip()\<close>\<close>

definition text_field :: "form \<Rightarrow> string \<Rightarrow> string" where
  "text_field F k = strip (form_get_default F k [])"

text \<open>\<^verbatim>\<open>1 if request.form.get(k) else 0\<close>\<close>

definition checkbox :: "form \<Rightarrow> string \<Rightarrow> nat" where
  "checkbox F k = (case form_get F k of None \<Rightarrow> 0 | Some v \<Rightarrow> if v \<noteq> [] then 1 else 0)"

text \<open>A form given by the pairs it was sent with (for concrete inputs).\<close>

definition form_of :: "(string \<times> string list) list \<Rightarrow> form" where
  "form_of kvs k = (case map_of kvs k of None \<Rightarrow> [] | Some vs \<Rightarrow> vs)"

subsection \<open>Shots\<close>

record shot =
  from_station :: string
  to_station :: string
  distance :: "pyfloat option"
  azimuth_fs :: "pyfloat option"
  azimuth_bs :: "pyfloat option"
  inclination_fs :: "pyfloat option"
  inclination_bs :: "pyfloat option"
  left :: pyfloat
  right :: pyfloat
  up :: pyfloat
  down :: pyfloat
  shot_note :: string

text \<open>
  \<^verbatim>\<open>float(xs[i]) if i < len(xs) and xs[i].strip() else None\<close> and the same with
  default \<^verbatim>\<open>0\<close>, and \<^verbatim>\<open>notes_list[i].strip() if i < len(notes_list) else ''\<close>.
\<close>

definition float_or_none :: "parser \<Rightarrow> string list \<Rightarrow> nat \<Rightarrow> exn + pyfloat option" where
  "float_or_none pf xs i =
     (if i < length xs then
        bind_exn (py_index xs i) (\<lambda>s.
          if strip s \<noteq> [] then
            bind_exn (py_index xs i) (\<lambda>t. bind_exn (py_float pf t) (\<lambda>x. Inr (Some x)))
          else Inr None)
      else Inr None)"

definition float_or_zero :: "parser \<Rightarrow> string list \<Rightarrow> nat \<Rightarrow> exn + pyfloat" where
  "float_or_zero pf xs i =
     (if i < length xs then
        bind_exn (py_index xs i) (\<lambda>s.
          if strip s \<noteq> [] then
            bind_exn (py_index xs i) (\<lambda>t. py_float pf t)
          else Inr (Finite 0))
      else Inr (Finite 0))"

definition note_at :: "string list \<Rightarrow> nat \<Rightarrow> exn + string" where
  "note_at xs i =
     (if i < length xs then bind_exn (py_index xs i) (\<lambda>s. Inr (strip s)) else Inr [])"

text \<open>The two variance quantities of lines 1184-1195 (locals of the loop body).\<close>

definition azimuth_variance :: "pyfloat \<Rightarrow> pyfloat \<Rightarrow> pyfloat" where
  "azimuth_variance fs bs =
     (let diff = fabs (fsub fs bs)
      in py_min3 (fabs (fsub diff (Finite 180)))
                 (fabs (fadd (fsub diff (Finite 180)) (Finite 360)))
                 (fabs (fsub (fsub diff (Finite 180)) (Finite 360))))"

definition incline_variance :: "pyfloat \<Rightarrow> pyfloat \<Rightarrow> pyfloat" where
  "incline_variance fs bs = fabs (fadd fs bs)"

definition shot_msg :: "nat \<Rightarrow> string \<Rightarrow> string" where
  "shot_msg shot_id m = ''Shot '' @ str_nat shot_id @ '': '' @ m"

definition append_if :: "bool \<Rightarrow> string \<Rightarrow> string list" where
  "append_if c m = (if c then [m] else [])"

definition present_and :: "pyfloat option \<Rightarrow> (pyfloat \<Rightarrow> bool) \<Rightarrow> bool" where
  "present_and v P = (case v of None \<Rightarrow> False | Some x \<Rightarrow> P x)"

text \<open>
  Lines 1152-1195: the messages one row appends to \<^verbatim>\<open>validation_errors\<close>, in order.
  The two variance branches are \<^verbatim>\<open>pass\<close> in the source: they append nothing.
\<close>

definition shot_violations :: "nat \<Rightarrow> shot \<Rightarrow> string list" where
  "shot_violations shot_id s =
     append_if (present_and (distance s) (\<lambda>d. flt d (Finite 0)))
       (shot_msg shot_id ''Distance cannot be negative'') @
     append_if (present_and (azimuth_fs s) (\<lambda>a. flt a (Finite 0) \<or> fge a (Finite 360)))
       (shot_msg shot_id (''Frontsight azimuth must be 0-359'' @ deg)) @
     append_if (present_and (azimuth_bs s) (\<lambda>a. flt a (Finite 0) \<or> fge a (Finite 360)))
       (shot_msg shot_id (''Backsight azimuth must be 0-359'' @ deg)) @
     append_if (present_and (inclination_fs s) (\<lambda>a. flt a (Finite (- 90)) \<or> fgt a (Finite 90)))
       (shot_msg shot_id (''Frontsight inclination must be -90'' @ deg @ '' to 90'' @ deg)) @
     append_if (present_and (inclination_bs s) (\<lambda>a. flt a (Finite (- 90)) \<or> fgt a (Finite 90)))
       (shot_msg shot_id (''Backsight inclination must be -90'' @ deg @ '' to 90'' @ deg)) @
     append_if (flt (left s) (Finite 0) \<or> flt (right s) (Finite 0) \<or>
                flt (up s) (Finite 0) \<or> flt (down s) (Finite 0))
       (shot_msg shot_id ''LRUD values cannot be negative'') @
     append_if (length (from_station s) > 20)
       (shot_msg shot_id ''From station name too long (max 20 characters)'') @
     append_if (length (to_station s) > 20)
       (shot_msg shot_id ''To station name too long (max 20 characters)'') @
     (case (azimuth_fs s, azimuth_bs s) of
        (Some fs, Some bs) \<Rightarrow> if fgt (azimuth_variance fs bs) (Finite 5) then [] else []
      | _ \<Rightarrow> []) @
     (case (inclination_fs s, inclination_bs s) of
        (Some fs, Some bs) \<Rightarrow> if fgt (incline_variance fs bs) (Finite 5) then [] else []
      | _ \<Rightarrow> [])"

text \<open>
  The body of the inner \<^verbatim>\<open>try\<close> (lines 1137-1212) for row \<open>i\<close>: the fields are
  converted in the source's order, so the first failing conversion is the one raised;
  then the row's messages and its shot.
\<close>

definition parse_shot :: "parser \<Rightarrow> form \<Rightarrow> nat \<Rightarrow> exn + (string list \<times> shot)" where
  "parse_shot pf F i =
     bind_exn (float_or_none pf (getlist F ''distance[]'') i) (\<lambda>distance.
     bind_exn (float_or_none pf (getlist F ''azimuth_fs[]'') i) (\<lambda>azimuth_fs.
     bind_exn (float_or_none pf (getlist F ''azimuth_bs[]'') i) (\<lambda>azimuth_bs.
     bind_exn (float_or_none pf (getlist F ''inclination_fs[]'') i) (\<lambda>inclination_fs.
     bind_exn (float_or_none pf (getlist F ''inclination_bs[]'') i) (\<lambda>inclination_bs.
     bind_exn (float_or_zero pf (getlist F ''left[]'') i) (\<lambda>left.
     bind_exn (float_or_zero pf (getlist F ''right[]'') i) (\<lambda>right.
     bind_exn (float_or_zero pf (getlist F ''up[]'') i) (\<lambda>up.
     bind_exn (float_or_zero pf (getlist F ''down[]'') i) (\<lambda>down.
     bind_exn (note_at (getlist F ''notes[]'') i) (\<lambda>note.
     bind_exn (py_index (getlist F ''from_station[]'') i) (\<lambda>f.
     bind_exn (py_index (getlist F ''to_station[]'') i) (\<lambda>t.
       let s = \<lparr>from_station = strip f, to_station = strip t, distance = distance,
                azimuth_fs = azimuth_fs, azimuth_bs = azimuth_bs,
                inclination_fs = inclination_fs, inclination_bs = inclination_bs,
                left = left, right = right, up = up, down = down, shot_note = note\<rparr>
       in Inr (shot_violations (i + 1) s, s)))))))))))))"

text \<open>
  Line 1134:
  \<^verbatim>\<open>i < len(to_stations) and from_stations[i].strip() and to_stations[i].strip()\<close>
\<close>

definition row_selected :: "form \<Rightarrow> nat \<Rightarrow> exn + bool" where
  "row_selected F i =
     (if i < length (getlist F ''to_station[]'') then
        bind_exn (py_index (getlist F ''from_station[]'') i) (\<lambda>f.
          if strip f \<noteq> [] then
            bind_exn (py_index (getlist F ''to_station[]'') i) (\<lambda>t. Inr (strip t \<noteq> []))
          else Inr False)
      else Inr False)"

text \<open>
  The loop of lines 1133-1215 over the indices \<open>is\<close>, with the accumulators
  \<^verbatim>\<open>validation_errors\<close>, \<^verbatim>\<open>survey_shots\<close> and \<^verbatim>\<open>valid_shot_count\<close>. The inner
  handler catches \<^verbatim>\<open>ValueError\<close> only; any other exception leaves the loop.
\<close>

fun process_rows ::
  "parser \<Rightarrow> form \<Rightarrow> nat list \<Rightarrow> string list \<times> shot list \<times> nat \<Rightarrow>
   exn + (string list \<times> shot list \<times> nat)" where
  "process_rows pf F [] acc = Inr acc"
| "process_rows pf F (i # is) (validation_errors, survey_shots, valid_shot_count) =
     (case row_selected F i of
        Inl e \<Rightarrow> Inl e
      | Inr False \<Rightarrow> process_rows pf F is (validation_errors, survey_shots, valid_shot_count)
      | Inr True \<Rightarrow>
          (case parse_shot pf F i of
             Inl (ValueError m) \<Rightarrow>
               process_rows pf F is
                 (validation_errors @ [shot_msg (i + 1) (''Invalid numeric value - '' @ m)],
                  survey_shots, valid_shot_count)
           | Inl e \<Rightarrow> Inl e
           | Inr (vs, s) \<Rightarrow>
               process_rows pf F is
                 (validation_errors @ vs, survey_shots @ [s], valid_shot_count + 1)))"

definition process_shots :: "parser \<Rightarrow> form \<Rightarrow> exn + (string list \<times> shot list \<times> nat)" where
  "process_shots pf F =
     process_rows pf F [0 ..< length (getlist F ''from_station[]'')] ([], [], 0)"

subsection \<open>Header checks\<close>

text \<open>\<^verbatim>\<open>if not v: flash(m, 'error'); return redirect(...)\<close>\<close>

definition required :: "string \<Rightarrow> string \<Rightarrow> string option" where
  "required v m = (if v = [] then Some m else None)"

definition confirmed :: "nat \<Rightarrow> string \<Rightarrow> string option" where
  "confirmed flag m = (if flag = 0 then Some m else None)"

text \<open>
  Lines 1088-1126, one calibration reading:
  \<^verbatim>\<open>
  if v and v.strip():
      try:
          x = float(v)
          if <x out of range>: flash(range_msg); return ...
      except ValueError:
          flash(invalid_msg); return ...
  \<close>
\<close>

definition reading_check ::
  "parser \<Rightarrow> string option \<Rightarrow> (pyfloat \<Rightarrow> bool) \<Rightarrow> string \<Rightarrow> string \<Rightarrow> string option" where
  "reading_check pf v out_of_range range_msg invalid_msg =
     (case v of
        None \<Rightarrow> None
      | Some s \<Rightarrow>
          if s \<noteq> [] \<and> strip s \<noteq> [] then
            (case py_float pf s of
               Inl e \<Rightarrow> Some invalid_msg
             | Inr x \<Rightarrow> if out_of_range x then Some range_msg else None)
          else None)"

text \<open>The checks run in order and the handler returns at the first one that fails.\<close>

fun first_violation :: "string option list \<Rightarrow> string option" where
  "first_violation [] = None"
| "first_violation (Some m # cs) = Some m"
| "first_violation (None # cs) = first_violation cs"

definition header_checks :: "parser \<Rightarrow> form \<Rightarrow> string option list" where
  "header_checks pf F =
     [required (text_field F ''cave_name'') ''Cave name is required.'',
      required (text_field F ''survey_date'') ''Survey date is required.'',
      confirmed (checkbox F ''data_accuracy'')
        ''You must confirm the accuracy of the survey data.'',
      required (text_field F ''book_sketch_person'') ''Book/Sketch person is required.'',
      required (text_field F ''instrument_reader'') ''Instrument reader is required.'',
      required (text_field F ''tape_person'') ''Tape person is required.'',
      required (text_field F ''point_person'') ''Point person is required.'',
      required (text_field F ''trip_leader'') ''Trip/Survey leader is required.'',
      required (text_field F ''compass_id'') ''Compass ID is required.'',
      required (text_field F ''inclinometer_id'') ''Inclinometer ID is required.'',
      confirmed (checkbox F ''crf_compass_course'')
        ''You must confirm that instruments were shot on the CRF Compass Course.'',
      reading_check pf (form_get F ''compass_frontsight'') (\<lambda>x. fle x (Finite 180) \<or> fgt x (Finite 360))
        (''Compass frontsight must be > 180'' @ deg @ '' (expected range 181-360'' @ deg @ '').'')
        ''Invalid compass frontsight value.'',
      reading_check pf (form_get F ''compass_backsight'') (\<lambda>x. flt x (Finite 0) \<or> fge x (Finite 180))
        (''Compass backsight must be < 180'' @ deg @ '' (expected range 0-179'' @ deg @ '').'')
        ''Invalid compass backsight value.'',
      reading_check pf (form_get F ''inclinometer_frontsight'') (\<lambda>x. flt x (Finite (- 90)) \<or> fgt x (Finite 90))
        (''Inclinometer frontsight must be between -90'' @ deg @ '' and 90'' @ deg @ ''.'')
        ''Invalid inclinometer frontsight value.'',
      reading_check pf (form_get F ''inclinometer_backsight'') (\<lambda>x. flt x (Finite (- 90)) \<or> fgt x (Finite 90))
        (''Inclinometer backsight must be between -90'' @ deg @ '' and 90'' @ deg @ ''.'')
        ''Invalid inclinometer backsight value.'']"

definition header_check :: "parser \<Rightarrow> form \<Rightarrow> string option" where
  "header_check pf F = first_violation (header_checks pf F)"

subsection \<open>The stored tables\<close>

text \<open>The shot dictionaries the edit handler builds: every value is the raw form string.\<close>

record raw_shot =
  r_from_station :: string
  r_to_station :: string
  r_distance :: string
  r_azimuth_fs :: string
  r_azimuth_bs :: string
  r_inclination_fs :: string
  r_inclination_bs :: string
  r_left :: string
  r_right :: string
  r_up :: string
  r_down :: string
  r_notes :: string

text \<open>
  A row is its key and its columns by name. A column holds SQL \<^verbatim>\<open>NULL\<close>, a number, an
  integer, a text, the timestamp of \<^verbatim>\<open>NOW()\<close>, or the text \<^verbatim>\<open>json.dumps\<close> gives for a
  shot list (kept as the list it serialises).
\<close>

datatype cell = CNull | CNum pyfloat | CInt nat | CText string | CNow | CShots "shot list"

type_synonym row = "nat \<times> (string \<times> cell) list"

record db =
  survey_header :: "row list"
  caves :: "row list"
  surveys :: "row list"
  shots :: "row list"
  people :: "row list"
  survey_team :: "row list"

text \<open>
  Modelled from the spec: \<^verbatim>\<open>init_cave_survey_db()\<close>, the first statement of
  \<^verbatim>\<open>survey_submit\<close>, is defined nowhere in the sources. The state machine of the spec
  (section 4.3) starts at parsing and a rejected submission writes no row (section 7), so
  the call leaves every table as it is.
\<close>

definition init_cave_survey_db :: "db \<Rightarrow> db" where
  "init_cave_survey_db d = d"

text \<open>
  Modelled from the spec: \<^verbatim>\<open>get_cave_survey_db_connection()\<close> is called by both
  handlers and defined nowhere in the sources. The spec (section 4.3, section 6) has the
  pipeline call into a persistence layer inside one caller-held connection; the call is
  taken to return a connection of the repository's driver, as \<^verbatim>\<open>get_db_connection\<close>
  (lines 60-76) does.
\<close>

definition get_cave_survey_db_connection :: "exn + unit" where
  "get_cave_survey_db_connection = Inr ()"

text \<open>
  \<^verbatim>\<open>cursor.execute(statement, parameters)\<close> on a psycopg2 cursor. psycopg2 binds
  parameters at \<^verbatim>\<open>%s\<close>; for a statement written with \<^verbatim>\<open>?\<close> and given parameters the
  binding raises \<^verbatim>\<open>TypeError\<close> and nothing reaches the server. Rows written through a
  connection become visible at \<^verbatim>\<open>commit\<close>: a handler that leaves before it returns the
  tables unchanged.
\<close>

datatype placeholder = Qmark | Format

definition execute :: "placeholder \<Rightarrow> exn + unit" where
  "execute style =
     (case style of
        Qmark \<Rightarrow> Inl (TypeError ''not all arguments converted during string formatting'')
      | Format \<Rightarrow> Inr ())"

text \<open>
  What the statements do to the tables, as their text reads: \<^verbatim>\<open>INSERT\<close> appends a row
  under a fresh key, taken to be what \<^verbatim>\<open>lastrowid\<close> returns; \<^verbatim>\<open>SELECT ... fetchone()\<close>
  gives the first matching row; a column of a row is read by its name.
\<close>

definition next_id :: "row list \<Rightarrow> nat" where
  "next_id t = Suc (fold max (map fst t) 0)"

definition insert_row :: "row list \<Rightarrow> (string \<times> cell) list \<Rightarrow> row list \<times> nat" where
  "insert_row t cols = (t @ [(next_id t, cols)], next_id t)"

definition col :: "row \<Rightarrow> string \<Rightarrow> cell" where
  "col r k = (case map_of (snd r) k of None \<Rightarrow> CNull | Some v \<Rightarrow> v)"

definition num_cell :: "pyfloat option \<Rightarrow> cell" where
  "num_cell v = (case v of None \<Rightarrow> CNull | Some x \<Rightarrow> CNum x)"

subsection \<open>Persisting a submission\<close>

text \<open>\<^verbatim>\<open>float(v) if v and v.strip() else None\<close>\<close>

definition reading_value :: "parser \<Rightarrow> string option \<Rightarrow> exn + pyfloat option" where
  "reading_value pf v =
     (case v of
        None \<Rightarrow> Inr None
      | Some s \<Rightarrow>
          if s \<noteq> [] \<and> strip s \<noteq> [] then bind_exn (py_float pf s) (\<lambda>x. Inr (Some x))
          else Inr None)"

definition header_columns ::
  "form \<Rightarrow> pyfloat option \<Rightarrow> pyfloat option \<Rightarrow> pyfloat option \<Rightarrow> pyfloat option \<Rightarrow>
   shot list \<Rightarrow> (string \<times> cell) list" where
  "header_columns F compass_fs_val compass_bs_val inclinometer_fs_val inclinometer_bs_val
     survey_shots =
     [(''cave_name'', CText (text_field F ''cave_name'')),
      (''state'', CText (text_field F ''state'')),
      (''county'', CText (text_field F ''county'')),
      (''region'', CText (text_field F ''region'')),
      (''survey_date'', CText (text_field F ''survey_date'')),
      (''fsb_number'', CText (text_field F ''fsb_number'')),
      (''area_in_cave'', CText (text_field F ''area_in_cave'')),
      (''time_in'', CText (text_field F ''time_in'')),
      (''time_out'', CText (text_field F ''time_out'')),
      (''survey_objective'', CText (text_field F ''survey_objective'')),
      (''conditions'', CText (text_field F ''conditions'')),
      (''other_info'', CText (text_field F ''other_info'')),
      (''book_sketch_person'', CText (text_field F ''book_sketch_person'')),
      (''instrument_reader'', CText (text_field F ''instrument_reader'')),
      (''tape_person'', CText (text_field F ''tape_person'')),
      (''point_person'', CText (text_field F ''point_person'')),
      (''trip_leader'', CText (text_field F ''trip_leader'')),
      (''other_team_members'', CText (text_field F ''other_team_members'')),
      (''compass_id'', CText (text_field F ''compass_id'')),
      (''compass_frontsight'', num_cell compass_fs_val),
      (''compass_backsight'', num_cell compass_bs_val),
      (''inclinometer_id'', CText (text_field F ''inclinometer_id'')),
      (''inclinometer_frontsight'', num_cell inclinometer_fs_val),
      (''inclinometer_backsight'', num_cell inclinometer_bs_val),
      (''crf_compass_course'', CInt (checkbox F ''crf_compass_course'')),
      (''calibration_notes'', CText (text_field F ''calibration_notes'')),
      (''additional_equipment'', CText (text_field F ''additional_equipment'')),
      (''survey_shots_json'', CShots survey_shots),
      (''raw_data'', CText (text_field F ''raw_data'')),
      (''instruments_crf_course'', CInt (checkbox F ''instruments_crf_course'')),
      (''data_accuracy'', CInt (checkbox F ''data_accuracy'')),
      (''created_date'', CNow)]"

text \<open>
  Lines 1266-1274:
  \<^verbatim>\<open>
  cave_location = f"{county}, {state}" if county and state else (state or '')
  cursor.execute('SELECT cave_id FROM caves WHERE name = %s AND location_text = %s', ...)
  cave_row = cursor.fetchone()
  if cave_row: cave_id = cave_row['cave_id']
  else: cursor.execute('INSERT INTO caves (name, location_text) VALUES (?, ?)', ...)
        cave_id = cursor.lastrowid
  \<close>
\<close>

definition cave_location :: "form \<Rightarrow> string" where
  "cave_location F =
     (let county = text_field F ''county''; state = text_field F ''state''
      in if county \<noteq> [] \<and> state \<noteq> [] then county @ '', '' @ state else state)"

definition cave_matches :: "string \<Rightarrow> string \<Rightarrow> row \<Rightarrow> bool" where
  "cave_matches cave_name location r \<longleftrightarrow>
     col r ''name'' = CText cave_name \<and> col r ''location_text'' = CText location"

definition resolve_cave :: "string \<Rightarrow> string \<Rightarrow> row list \<Rightarrow> exn + (row list \<times> nat)" where
  "resolve_cave cave_name location t =
     bind_exn (execute Format) (\<lambda>_.
       case find (cave_matches cave_name location) t of
         Some cave_row \<Rightarrow> Inr (t, fst cave_row)
       | None \<Rightarrow>
           bind_exn (execute Qmark) (\<lambda>_.
             Inr (insert_row t [(''name'', CText cave_name), (''location_text'', CText location)])))"

definition survey_columns :: "form \<Rightarrow> nat \<Rightarrow> (string \<times> cell) list" where
  "survey_columns F cave_id =
     [(''cave_id'', CInt cave_id),
      (''date'', CText (text_field F ''survey_date'')),
      (''area_in_cave'', CText (text_field F ''area_in_cave'')),
      (''objective'', CText (text_field F ''survey_objective'')),
      (''time_in'', CText (text_field F ''time_in'')),
      (''time_out'', CText (text_field F ''time_out'')),
      (''conditions'', CText (text_field F ''conditions'')),
      (''survey_designation_raw'', CText ''Form Entry''),
      (''units_length'', CText ''feet''),
      (''units_compass'', CText ''degrees''),
      (''units_clino'', CText ''degrees'')]"

definition shot_columns :: "nat \<Rightarrow> nat \<Rightarrow> shot \<Rightarrow> (string \<times> cell) list" where
  "shot_columns professional_survey_id i s =
     [(''survey_id'', CInt professional_survey_id),
      (''sequence_in_page'', CInt (i + 1)),
      (''station_from'', CText (from_station s)),
      (''station_to'', CText (to_station s)),
      (''distance'', num_cell (distance s)),
      (''fs_azimuth_deg'', num_cell (azimuth_fs s)),
      (''bs_azimuth_deg'', num_cell (azimuth_bs s)),
      (''fs_incline_deg'', num_cell (inclination_fs s)),
      (''bs_incline_deg'', num_cell (inclination_bs s)),
      (''lrud_left'', CNum (left s)),
      (''lrud_right'', CNum (right s)),
      (''lrud_up'', CNum (up s)),
      (''lrud_down'', CNum (down s)),
      (''note'', CText (shot_note s))]"

text \<open>\<^verbatim>\<open>for i, shot in enumerate(survey_shots): INSERT INTO shots ...\<close>, from index \<open>i\<close> on.\<close>

fun insert_shots :: "nat \<Rightarrow> nat \<Rightarrow> shot list \<Rightarrow> row list \<Rightarrow> exn + row list" where
  "insert_shots professional_survey_id i [] t = Inr t"
| "insert_shots professional_survey_id i (s # ss) t =
     bind_exn (execute Qmark) (\<lambda>_.
       insert_shots professional_survey_id (i + 1) ss
         (fst (insert_row t (shot_columns professional_survey_id i s))))"

definition team_roles :: "form \<Rightarrow> (string \<times> string) list" where
  "team_roles F =
     [(''sketch_book'', text_field F ''book_sketch_person''),
      (''foresight'', text_field F ''instrument_reader''),
      (''backsight'', text_field F ''tape_person''),
      (''other'', text_field F ''point_person'')]"

definition resolve_person :: "string \<Rightarrow> row list \<Rightarrow> exn + (row list \<times> nat)" where
  "resolve_person person_name t =
     bind_exn (execute Format) (\<lambda>_.
       case find (\<lambda>r. col r ''full_name'' = CText person_name) t of
         Some person_row \<Rightarrow> Inr (t, fst person_row)
       | None \<Rightarrow>
           bind_exn (execute Qmark) (\<lambda>_. Inr (insert_row t [(''full_name'', CText person_name)])))"

text \<open>The loop of lines 1309-1325 over the tables \<^verbatim>\<open>people\<close> and \<^verbatim>\<open>survey_team\<close>.\<close>

fun insert_team ::
  "nat \<Rightarrow> (string \<times> string) list \<Rightarrow> row list \<times> row list \<Rightarrow> exn + (row list \<times> row list)" where
  "insert_team professional_survey_id [] tables = Inr tables"
| "insert_team professional_survey_id ((role, person_name) # rs) (ppl, team) =
     (if person_name \<noteq> [] then
        bind_exn (resolve_person person_name ppl) (\<lambda>(ppl', person_id).
        bind_exn (execute Qmark) (\<lambda>_.
          insert_team professional_survey_id rs
            (ppl', fst (insert_row team
                          [(''survey_id'', CInt professional_survey_id),
                           (''person_id'', CInt person_id),
                           (''display_name'', CText person_name),
                           (''role'', CText role)]))))
      else insert_team professional_survey_id rs (ppl, team))"

text \<open>
  Lines 1229-1327. The first statement sent is the \<^verbatim>\<open>INSERT INTO survey_header\<close> of line
  1240, written with \<^verbatim>\<open>?\<close>; the statements after it run only if it succeeds.
\<close>

definition persist :: "parser \<Rightarrow> form \<Rightarrow> shot list \<Rightarrow> db \<Rightarrow> exn + db" where
  "persist pf F survey_shots d =
     bind_exn get_cave_survey_db_connection (\<lambda>conn.
     bind_exn (reading_value pf (form_get F ''compass_frontsight'')) (\<lambda>compass_fs_val.
     bind_exn (reading_value pf (form_get F ''compass_backsight'')) (\<lambda>compass_bs_val.
     bind_exn (reading_value pf (form_get F ''inclinometer_frontsight'')) (\<lambda>inclinometer_fs_val.
     bind_exn (reading_value pf (form_get F ''inclinometer_backsight'')) (\<lambda>inclinometer_bs_val.
     bind_exn (execute Qmark) (\<lambda>_.
       let (headers, survey_id) =
             insert_row (survey_header d)
               (header_columns F compass_fs_val compass_bs_val inclinometer_fs_val
                  inclinometer_bs_val survey_shots)
       in
     bind_exn (resolve_cave (text_field F ''cave_name'') (cave_location F) (caves d))
       (\<lambda>(caves', cave_id).
     bind_exn (execute Qmark) (\<lambda>_.
       let (surveys', professional_survey_id) =
             insert_row (surveys d) (survey_columns F cave_id)
       in
     bind_exn (insert_shots professional_survey_id 0 survey_shots (shots d)) (\<lambda>shots'.
     bind_exn (insert_team professional_survey_id (team_roles F) (people d, survey_team d))
       (\<lambda>(people', team').
         Inr \<lparr>survey_header = headers, caves = caves', surveys = surveys', shots = shots',
              people = people', survey_team = team'\<rparr>))))))))))"

subsection \<open>The submission handler\<close>

text \<open>
  What a handler answers: \<open>Rejected ms\<close> flashes each of \<open>ms\<close> as an error and
  redirects back to the form; \<open>Accepted m\<close> flashes \<open>m\<close> as a success and redirects
  on; \<open>Login_required\<close> redirects to the admin login.
\<close>

datatype outcome = Rejected "string list" | Accepted string | Login_required

text \<open>\<^verbatim>\<open>str(e)\<close> and the two outer handlers of \<^verbatim>\<open>survey_submit\<close> (lines 1333-1338).\<close>

fun exn_text :: "exn \<Rightarrow> string" where
  "exn_text IndexError = ''list index out of range''"
| "exn_text (ValueError m) = m"
| "exn_text (NameError n) = ''name '' @ [CHR 0x27] @ n @ [CHR 0x27] @ '' is not defined''"
| "exn_text (TypeError m) = m"

fun submit_failed :: "exn \<Rightarrow> string" where
  "submit_failed (ValueError m) = ''Invalid data format: '' @ m"
| "submit_failed e = ''Survey submission failed: '' @ exn_text e"

text \<open>Lines 1218-1223: the first five messages, then the count of the others.\<close>

definition surfaced :: "string list \<Rightarrow> string list" where
  "surfaced validation_errors =
     take 5 validation_errors @
     (if length validation_errors > 5
      then [''... and '' @ str_nat (length validation_errors - 5) @ '' more validation errors'']
      else [])"

definition survey_submit :: "parser \<Rightarrow> form \<Rightarrow> db \<Rightarrow> outcome \<times> db" where
  "survey_submit pf F d0 =
     (let d = init_cave_survey_db d0 in
      case header_check pf F of
        Some m \<Rightarrow> (Rejected [m], d)
      | None \<Rightarrow>
          (case process_shots pf F of
             Inl e \<Rightarrow> (Rejected [submit_failed e], d)
           | Inr (validation_errors, survey_shots, valid_shot_count) \<Rightarrow>
               if validation_errors \<noteq> [] then (Rejected (surfaced validation_errors), d)
               else if valid_shot_count = 0 then
                 (Rejected [''At least one survey shot is required.''], d)
               else
                 (case persist pf F survey_shots d of
                    Inl e \<Rightarrow> (Rejected [submit_failed e], d)
                  | Inr d' \<Rightarrow>
                      (Accepted (''Survey data for '' @ text_field F ''cave_name'' @
                                 '' submitted successfully! Recorded '' @
                                 str_nat valid_shot_count @ '' survey shots.''), d'))))"

subsection \<open>The edit handler (admin_survey_update)\<close>

text \<open>\<^verbatim>\<open>xs[i] if i < len(xs) else ''\<close>\<close>

definition value_at :: "string list \<Rightarrow> nat \<Rightarrow> exn + string" where
  "value_at xs i = (if i < length xs then py_index xs i else Inr [])"

definition build_shot :: "form \<Rightarrow> nat \<Rightarrow> exn + raw_shot" where
  "build_shot F i =
     bind_exn (py_index (getlist F ''from_station[]'') i) (\<lambda>f.
     bind_exn (value_at (getlist F ''to_station[]'') i) (\<lambda>t.
     bind_exn (value_at (getlist F ''distance[]'') i) (\<lambda>distance.
     bind_exn (value_at (getlist F ''azimuth_fs[]'') i) (\<lambda>azimuth_fs.
     bind_exn (value_at (getlist F ''azimuth_bs[]'') i) (\<lambda>azimuth_bs.
     bind_exn (value_at (getlist F ''inclination_fs[]'') i) (\<lambda>inclination_fs.
     bind_exn (value_at (getlist F ''inclination_bs[]'') i) (\<lambda>inclination_bs.
     bind_exn (value_at (getlist F ''left[]'') i) (\<lambda>left.
     bind_exn (value_at (getlist F ''right[]'') i) (\<lambda>right.
     bind_exn (value_at (getlist F ''up[]'') i) (\<lambda>up.
     bind_exn (value_at (getlist F ''down[]'') i) (\<lambda>down.
     bind_exn (value_at (getlist F ''notes[]'') i) (\<lambda>notes.
       Inr \<lparr>r_from_station = f, r_to_station = t, r_distance = distance,
            r_azimuth_fs = azimuth_fs, r_azimuth_bs = azimuth_bs,
            r_inclination_fs = inclination_fs, r_inclination_bs = inclination_bs,
            r_left = left, r_right = right, r_up = up, r_down = down,
            r_notes = notes\<rparr>))))))))))))"

text \<open>
  Lines 705-721:
  \<^verbatim>\<open>
  for i in range(len(from_stations)):
      if from_stations[i].strip():  # Only include if from_station is not empty
          survey_shots.append({...})
  \<close>
\<close>

fun build_shots :: "form \<Rightarrow> nat list \<Rightarrow> raw_shot list \<Rightarrow> exn + raw_shot list" where
  "build_shots F [] survey_shots = Inr survey_shots"
| "build_shots F (i # is) survey_shots =
     bind_exn (py_index (getlist F ''from_station[]'') i) (\<lambda>f.
       if strip f \<noteq> [] then
         bind_exn (build_shot F i) (\<lambda>s. build_shots F is (survey_shots @ [s]))
       else build_shots F is survey_shots)"

text \<open>
  \<open>admin_authenticated\<close> is \<^verbatim>\<open>session.get('admin_authenticated')\<close>; any exception is
  caught by the handler's \<^verbatim>\<open>except Exception\<close> (lines 756-758). After the connection is
  taken (line 728) the handler evaluates \<^verbatim>\<open>cursor.execute\<close> (line 729): the name
  \<^verbatim>\<open>cursor\<close> is bound neither in the handler nor in the module, so \<^verbatim>\<open>NameError\<close> is
  raised before the statement or its parameters are looked at.
\<close>

definition admin_survey_update :: "bool \<Rightarrow> nat \<Rightarrow> form \<Rightarrow> db \<Rightarrow> outcome \<times> db" where
  "admin_survey_update admin_authenticated survey_id F d =
     (if \<not> admin_authenticated then (Login_required, d)
      else
        (case build_shots F [0 ..< length (getlist F ''from_station[]'')] [] of
           Inl e \<Rightarrow> (Rejected [''Error updating survey: '' @ exn_text e], d)
         | Inr survey_shots \<Rightarrow>
             if text_field F ''cave_name'' = [] \<or> text_field F ''survey_date'' = [] then
               (Rejected [''Cave name and survey date are required.''], d)
             else
               (case get_cave_survey_db_connection of
                  Inl e \<Rightarrow> (Rejected [''Error updating survey: '' @ exn_text e], d)
                | Inr conn \<Rightarrow>
                    (Rejected [''Error updating survey: '' @ exn_text (NameError ''cursor'')],
                     d))))"

subsection \<open>What one row contributes\<close>

text \<open>
  The guard of line 1134 as a truth value, and the messages and the shot that row \<open>i\<close>
  adds to the accumulators of the loop. The loop is shown below to compute exactly the
  concatenation of these over its rows.
\<close>

definition both_stations_given :: "form \<Rightarrow> nat \<Rightarrow> bool" where
  "both_stations_given F i \<longleftrightarrow>
     i < length (getlist F ''to_station[]'') \<and>
     strip (getlist F ''from_station[]'' ! i) \<noteq> [] \<and>
     strip (getlist F ''to_station[]'' ! i) \<noteq> []"

definition row_messages :: "parser \<Rightarrow> form \<Rightarrow> nat \<Rightarrow> string list" where
  "row_messages pf F i =
     (if both_stations_given F i then
        (case parse_shot pf F i of
           Inl (ValueError m) \<Rightarrow> [shot_msg (i + 1) (''Invalid numeric value - '' @ m)]
         | Inl e \<Rightarrow> []
         | Inr (vs, s) \<Rightarrow> vs)
      else [])"

definition row_shots :: "parser \<Rightarrow> form \<Rightarrow> nat \<Rightarrow> shot list" where
  "row_shots pf F i =
     (if both_stations_given F i then
        (case parse_shot pf F i of Inl e \<Rightarrow> [] | Inr (vs, s) \<Rightarrow> [s])
      else [])"

text \<open>The total reading of \<^verbatim>\<open>xs[i] if i < len(xs) else ''\<close> and the edit handler's row.\<close>

definition field_at :: "string list \<Rightarrow> nat \<Rightarrow> string" where
  "field_at xs i = (if i < length xs then xs ! i else [])"

definition raw_shot_at :: "form \<Rightarrow> nat \<Rightarrow> raw_shot" where
  "raw_shot_at F i =
     \<lparr>r_from_station = getlist F ''from_station[]'' ! i,
      r_to_station = field_at (getlist F ''to_station[]'') i,
      r_distance = field_at (getlist F ''distance[]'') i,
      r_azimuth_fs = field_at (getlist F ''azimuth_fs[]'') i,
      r_azimuth_bs = field_at (getlist F ''azimuth_bs[]'') i,
      r_inclination_fs = field_at (getlist F ''inclination_fs[]'') i,
      r_inclination_bs = field_at (getlist F ''inclination_bs[]'') i,
      r_left = field_at (getlist F ''left[]'') i,
      r_right = field_at (getlist F ''right[]'') i,
      r_up = field_at (getlist F ''up[]'') i,
      r_down = field_at (getlist F ''down[]'') i,
      r_notes = field_at (getlist F ''notes[]'') i\<rparr>"

definition all_messages :: "parser \<Rightarrow> form \<Rightarrow> string list" where
  "all_messages pf F =
     concat (map (row_messages pf F) [0 ..< length (getlist F ''from_station[]'')])"

definition all_shots :: "parser \<Rightarrow> form \<Rightarrow> shot list" where
  "all_shots pf F =
     concat (map (row_shots pf F) [0 ..< length (getlist F ''from_station[]'')])"

text \<open>The station pairs of a shot list.\<close>

definition stations :: "shot list \<Rightarrow> (string \<times> string) list" where
  "stations ss = map (\<lambda>s. (from_station s, to_station s)) ss"


subsection \<open>Concrete inputs\<close>

text \<open>
  A parser for concrete inputs: it agrees with \<^verbatim>\<open>float\<close> on \<^verbatim>\<open>nan\<close> and on decimal
  integer literals with an optional minus sign, with surrounding whitespace, and refuses
  every other string (which \<^verbatim>\<open>float\<close> need not do).
\<close>

fun digits_value :: "string \<Rightarrow> nat \<Rightarrow> nat option" where
  "digits_value [] acc = Some acc"
| "digits_value (c # cs) acc =
     (let k = (of_char c :: nat)
      in if 48 \<le> k \<and> k \<le> 57 then digits_value cs (10 * acc + (k - 48)) else None)"

definition unsigned_value :: "string \<Rightarrow> nat option" where
  "unsigned_value s = (if s = [] then None else digits_value s 0)"

definition decimal_float :: parser where
  "decimal_float s =
     (let refuse = Inl (''could not convert string to float: '' @ [CHR 0x27] @ s @ [CHR 0x27])
      in if strip s = ''nan'' then Inr NaN
         else
           (case strip s of
              [] \<Rightarrow> refuse
            | c # cs \<Rightarrow>
                if c = CHR ''-'' then
                  (case unsigned_value cs of
                     None \<Rightarrow> refuse
                   | Some n \<Rightarrow> Inr (Finite (- real n)))
                else
                  (case unsigned_value (c # cs) of
                     None \<Rightarrow> refuse
                   | Some n \<Rightarrow> Inr (Finite (real n)))))"

definition empty_db :: db where
  "empty_db = \<lparr>survey_header = [], caves = [], surveys = [], shots = [], people = [],
               survey_team = []\<rparr>"

definition sample_shot :: shot where
  "sample_shot = \<lparr>from_station = ''A1'', to_station = ''A2'', distance = Some (Finite 10),
     azimuth_fs = Some (Finite 90), azimuth_bs = None, inclination_fs = Some (Finite 0),
     inclination_bs = None, left = Finite 0, right = Finite 0, up = Finite 0,
     down = Finite 0, shot_note = []\<rparr>"

text \<open>Arrays of unequal lengths: three from-stations, two to-stations, one distance.\<close>

definition ragged_form :: form where
  "ragged_form = form_of [(''from_station[]'', [''A1'', ''A2'', ''A3'']),
                          (''to_station[]'', [''A2'', ''A3'']),
                          (''distance[]'', [''10''])]"

text \<open>The end-to-end scenario of the specification (section 8) and variants of it.\<close>

definition scenario :: "(string \<times> string list) list" where
  "scenario =
     [(''cave_name'', [''Test Cave'']),
      (''survey_date'', [''2025-10-11'']),
      (''book_sketch_person'', [''A'']),
      (''instrument_reader'', [''B'']),
      (''tape_person'', [''C'']),
      (''point_person'', [''D'']),
      (''trip_leader'', [''E'']),
      (''compass_id'', [''X1'']),
      (''inclinometer_id'', [''Y1'']),
      (''crf_compass_course'', [''on'']),
      (''data_accuracy'', [''on'']),
      (''from_station[]'', [''A1'']),
      (''to_station[]'', [''A2'']),
      (''distance[]'', [''10'']),
      (''azimuth_fs[]'', [''90'']),
      (''inclination_fs[]'', [''0''])]"

text \<open>Variants of the scenario: each overrides some of its fields.\<close>

definition without_compass_id :: form where
  "without_compass_id = form_of ((''compass_id'', []) # scenario)"

definition unparsable_distance :: form where
  "unparsable_distance = form_of ((''distance[]'', [''abc'']) # scenario)"

definition negative_distance :: form where
  "negative_distance = form_of ((''distance[]'', [''-1'']) # scenario)"

definition blank_to_station :: form where
  "blank_to_station = form_of ((''to_station[]'', [[]]) # scenario)"

definition two_header_violations :: form where
  "two_header_violations =
     form_of ((''cave_name'', []) # (''survey_date'', []) # (''distance[]'', [''-1'']) # scenario)"

definition six_violations :: form where
  "six_violations =
     form_of ((''distance[]'', [''-1'']) # (''azimuth_fs[]'', [''360'']) #
              (''azimuth_bs[]'', [''360'']) # (''inclination_fs[]'', [''91'']) #
              (''inclination_bs[]'', [''91'']) # (''left[]'', [''-1'']) # scenario)"

text \<open>The scenario with \<^verbatim>\<open>nan\<close> sent as the frontsight azimuth of its shot.\<close>

definition nan_azimuth :: form where
  "nan_azimuth = form_of ((''azimuth_fs[]'', [''nan'']) # scenario)"

text \<open>
  An edit, or a submission, of two rows: from-stations A1 and A2, to-stations A2 and
  blank.
\<close>

definition edit_form :: form where
  "edit_form =
     form_of ((''from_station[]'', [''A1'', ''A2'']) # (''to_station[]'', [''A2'', []]) # scenario)"

text \<open>Tables holding one survey header, of key 1, with one shot.\<close>

definition one_survey_db :: db where
  "one_survey_db =
     empty_db\<lparr>survey_header :=
       [(1, [(''cave_name'', CText ''Test Cave''),
             (''survey_shots_json'', CShots [sample_shot])])]\<rparr>"

section \<open>Properties\<close>

subsection \<open>The loop over the rows\<close>

lemma float_or_none_cases:
  "float_or_none pf xs i =
     (if i < length xs \<and> strip (xs ! i) \<noteq> [] then
        (case pf (xs ! i) of Inl m \<Rightarrow> Inl (ValueError m) | Inr x \<Rightarrow> Inr (Some x))
      else Inr None)"
  by (simp add: float_or_none_def py_index_def bind_exn_def py_float_def split: sum.splits)

lemma float_or_zero_cases:
  "float_or_zero pf xs i =
     (if i < length xs \<and> strip (xs ! i) \<noteq> [] then
        (case pf (xs ! i) of Inl m \<Rightarrow> Inl (ValueError m) | Inr x \<Rightarrow> Inr x)
      else Inr (Finite 0))"
  by (simp add: float_or_zero_def py_index_def bind_exn_def py_float_def split: sum.splits)

lemma note_at_cases:
  "note_at xs i = Inr (if i < length xs then strip (xs ! i) else [])"
  by (simp add: note_at_def py_index_def bind_exn_def)

lemma row_selected_cases:
  "i < length (getlist F ''from_station[]'') \<Longrightarrow> row_selected F i = Inr (both_stations_given F i)"
  by (simp add: row_selected_def both_stations_given_def py_index_def bind_exn_def)

text \<open>A conversion raises \<^verbatim>\<open>ValueError\<close> or nothing.\<close>

lemma float_or_none_raises:
  "\<forall>m. e \<noteq> ValueError m \<Longrightarrow> float_or_none pf xs i \<noteq> Inl e"
  by (auto simp add: float_or_none_cases split: sum.splits)

lemma float_or_zero_raises:
  "\<forall>m. e \<noteq> ValueError m \<Longrightarrow> float_or_zero pf xs i \<noteq> Inl e"
  by (auto simp add: float_or_zero_cases split: sum.splits)

lemma bind_exn_raises:
  "m \<noteq> Inl e \<Longrightarrow> (\<And>x. m = Inr x \<Longrightarrow> f x \<noteq> Inl e) \<Longrightarrow> bind_exn m f \<noteq> Inl e"
  by (cases m) (auto simp: bind_exn_def)

lemma parse_shot_raises:
  assumes "i < length (getlist F ''from_station[]'')" "i < length (getlist F ''to_station[]'')"
    and "\<forall>m. e \<noteq> ValueError m"
  shows "parse_shot pf F i \<noteq> Inl e"
  unfolding parse_shot_def
  using assms
  by (intro bind_exn_raises float_or_none_raises float_or_zero_raises)
     (simp_all add: note_at_cases py_index_def Let_def)

lemma parse_shot_no_index:
  assumes "i < length (getlist F ''from_station[]'')" "i < length (getlist F ''to_station[]'')"
  shows "parse_shot pf F i \<noteq> Inl IndexError"
  using assms by (intro parse_shot_raises) simp_all

lemma parse_shot_cases:
  assumes "i < length (getlist F ''from_station[]'')" "i < length (getlist F ''to_station[]'')"
  obtains (Invalid) m where "parse_shot pf F i = Inl (ValueError m)"
        | (Parsed) vs s where "parse_shot pf F i = Inr (vs, s)"
proof (cases "parse_shot pf F i")
  case (Inl e)
  then have "\<not> (\<forall>m. e \<noteq> ValueError m)"
    using parse_shot_raises [OF assms, of e pf] by blast
  then show ?thesis using Inl Invalid by blast
next
  case (Inr r)
  then show ?thesis using Parsed by (cases r) auto
qed

lemma process_rows_step:
  assumes "i < length (getlist F ''from_station[]'')"
  shows "process_rows pf F (i # is) (e, s, n) =
         process_rows pf F is (e @ row_messages pf F i, s @ row_shots pf F i, n + length (row_shots pf F i))"
proof (cases "both_stations_given F i")
  case True
  then have t: "i < length (getlist F ''to_station[]'')" by (simp add: both_stations_given_def)
  consider (Invalid) m where "parse_shot pf F i = Inl (ValueError m)"
    | (Parsed) vs s' where "parse_shot pf F i = Inr (vs, s')"
    using parse_shot_cases [OF assms t, where pf = pf] by blast
  then show ?thesis
  proof cases
    case (Invalid m)
    then show ?thesis using True
      by (simp add: row_selected_cases [OF assms] row_messages_def row_shots_def)
  next
    case (Parsed vs s')
    then show ?thesis using True
      by (simp add: row_selected_cases [OF assms] row_messages_def row_shots_def)
  qed
next
  case False
  then show ?thesis
    by (simp add: row_selected_cases [OF assms] row_messages_def row_shots_def)
qed

lemma process_rows_eq:
  "\<forall>i\<in>set is. i < length (getlist F ''from_station[]'') \<Longrightarrow>
   process_rows pf F is (e, s, n) =
     Inr (e @ concat (map (row_messages pf F) is),
          s @ concat (map (row_shots pf F) is),
          n + length (concat (map (row_shots pf F) is)))"
proof (induction "is" arbitrary: e s n)
  case Nil
  show ?case by simp
next
  case (Cons i "is")
  then show ?case by (simp del: process_rows.simps add: process_rows_step)
qed

lemma process_shots_eq:
  "process_shots pf F =
     (let rows = [0 ..< length (getlist F ''from_station[]'')]
      in Inr (concat (map (row_messages pf F) rows),
              concat (map (row_shots pf F) rows),
              length (concat (map (row_shots pf F) rows))))"
  unfolding process_shots_def Let_def
  using process_rows_eq [of "[0 ..< length (getlist F ''from_station[]'')]" F pf "[]" "[]" 0]
  by simp

lemma bind_exn_Inr: "bind_exn m f = Inr y \<longleftrightarrow> (\<exists>x. m = Inr x \<and> f x = Inr y)"
  by (cases m) (simp_all add: bind_exn_def)

lemma parse_shot_Inr:
  assumes "parse_shot pf F i = Inr (vs, s)"
  shows "float_or_none pf (getlist F ''distance[]'') i = Inr (distance s)"
    and "float_or_none pf (getlist F ''azimuth_fs[]'') i = Inr (azimuth_fs s)"
    and "float_or_none pf (getlist F ''azimuth_bs[]'') i = Inr (azimuth_bs s)"
    and "float_or_none pf (getlist F ''inclination_fs[]'') i = Inr (inclination_fs s)"
    and "float_or_none pf (getlist F ''inclination_bs[]'') i = Inr (inclination_bs s)"
    and "float_or_zero pf (getlist F ''left[]'') i = Inr (left s)"
    and "float_or_zero pf (getlist F ''right[]'') i = Inr (right s)"
    and "float_or_zero pf (getlist F ''up[]'') i = Inr (up s)"
    and "float_or_zero pf (getlist F ''down[]'') i = Inr (down s)"
    and "note_at (getlist F ''notes[]'') i = Inr (shot_note s)"
    and "py_index (getlist F ''from_station[]'') i = Inr f \<Longrightarrow> from_station s = strip f"
    and "py_index (getlist F ''to_station[]'') i = Inr t \<Longrightarrow> to_station s = strip t"
    and "vs = shot_violations (i + 1) s"
  using assms unfolding parse_shot_def bind_exn_Inr Let_def
  by auto

lemma float_or_none_short: "length xs \<le> i \<Longrightarrow> float_or_none pf xs i = Inr None"
  by (simp add: float_or_none_cases)

lemma float_or_zero_short: "length xs \<le> i \<Longrightarrow> float_or_zero pf xs i = Inr (Finite 0)"
  by (simp add: float_or_zero_cases)

lemma note_at_short: "length xs \<le> i \<Longrightarrow> note_at xs i = Inr []"
  by (simp add: note_at_cases)

subsection \<open>Outcomes of the submission handler\<close>

lemma process_shots_all:
  "process_shots pf F = Inr (all_messages pf F, all_shots pf F, length (all_shots pf F))"
  by (simp add: process_shots_eq all_messages_def all_shots_def Let_def)

lemma first_violation_None: "first_violation cs = None \<longleftrightarrow> (\<forall>c \<in> set cs. c = None)"
  by (induction cs rule: first_violation.induct) auto

lemma reading_check_value:
  "reading_check pf v P rm im = None \<Longrightarrow> \<exists>x. reading_value pf v = Inr x"
  by (auto simp: reading_check_def reading_value_def bind_exn_def split: option.splits if_splits sum.splits)

lemma header_check_readings:
  assumes "header_check pf F = None"
  shows "\<exists>a. reading_value pf (form_get F ''compass_frontsight'') = Inr a"
    and "\<exists>a. reading_value pf (form_get F ''compass_backsight'') = Inr a"
    and "\<exists>a. reading_value pf (form_get F ''inclinometer_frontsight'') = Inr a"
    and "\<exists>a. reading_value pf (form_get F ''inclinometer_backsight'') = Inr a"
  using assms unfolding header_check_def first_violation_None header_checks_def
  by (auto intro: reading_check_value)

text \<open>The first statement of the persistence step is refused by the driver.\<close>

lemma persist_TypeError:
  assumes "header_check pf F = None"
  shows "persist pf F survey_shots d =
         Inl (TypeError ''not all arguments converted during string formatting'')"
proof -
  obtain a b c e where
    "reading_value pf (form_get F ''compass_frontsight'') = Inr a"
    "reading_value pf (form_get F ''compass_backsight'') = Inr b"
    "reading_value pf (form_get F ''inclinometer_frontsight'') = Inr c"
    "reading_value pf (form_get F ''inclinometer_backsight'') = Inr e"
    using header_check_readings [OF assms] by blast
  then show ?thesis
    by (simp add: persist_def get_cave_survey_db_connection_def execute_def bind_exn_def)
qed

lemma survey_submit_header:
  "header_check pf F = Some m \<Longrightarrow> survey_submit pf F d = (Rejected [m], d)"
  by (simp add: survey_submit_def init_cave_survey_db_def)

lemma survey_submit_messages:
  "header_check pf F = None \<Longrightarrow> all_messages pf F \<noteq> [] \<Longrightarrow>
   survey_submit pf F d = (Rejected (surfaced (all_messages pf F)), d)"
  by (simp add: survey_submit_def init_cave_survey_db_def process_shots_all)

lemma survey_submit_empty:
  "header_check pf F = None \<Longrightarrow> all_messages pf F = [] \<Longrightarrow> all_shots pf F = [] \<Longrightarrow>
   survey_submit pf F d = (Rejected [''At least one survey shot is required.''], d)"
  by (simp add: survey_submit_def init_cave_survey_db_def process_shots_all)

lemma survey_submit_failed:
  "header_check pf F = None \<Longrightarrow> all_messages pf F = [] \<Longrightarrow> all_shots pf F \<noteq> [] \<Longrightarrow>
   survey_submit pf F d =
     (Rejected [''Survey submission failed: not all arguments converted during string formatting''], d)"
  by (simp add: survey_submit_def init_cave_survey_db_def process_shots_all persist_TypeError)

lemma survey_submit_rejects: "\<exists>ms. survey_submit pf F d = (Rejected ms, d)"
proof (cases "header_check pf F")
  case (Some m)
  then show ?thesis by (simp add: survey_submit_header)
next
  case None
  show ?thesis
  proof (cases "all_messages pf F = []")
    case False
    then show ?thesis using None by (simp add: survey_submit_messages)
  next
    case True
    show ?thesis
    proof (cases "all_shots pf F = []")
      case True
      then show ?thesis using None \<open>all_messages pf F = []\<close> by (simp add: survey_submit_empty)
    next
      case False
      then show ?thesis using None True by (simp add: survey_submit_failed)
    qed
  qed
qed

subsection \<open>Evaluating concrete strings\<close>

lemma strip_plain: "\<not> isspace (hd s) \<Longrightarrow> \<not> isspace (last s) \<Longrightarrow> s \<noteq> [] \<Longrightarrow> strip s = s"
proof -
  assume a: "\<not> isspace (hd s)" "\<not> isspace (last s)" "s \<noteq> []"
  have 1: "dropWhile isspace s = s" using a by (simp add: dropWhile_eq_self_iff)
  have 2: "dropWhile isspace (rev s) = rev s" using a by (simp add: dropWhile_eq_self_iff hd_rev)
  show ?thesis by (simp add: strip_def 1 2)
qed

lemma strip_Nil: "strip [] = []"
  by (simp add: strip_def)

subsection \<open>The per-shot messages\<close>


lemma shot_violations_eq:
  "shot_violations shot_id s =
     append_if (present_and (distance s) (\<lambda>d. flt d (Finite 0)))
       (shot_msg shot_id ''Distance cannot be negative'') @
     append_if (present_and (azimuth_fs s) (\<lambda>a. flt a (Finite 0) \<or> fge a (Finite 360)))
       (shot_msg shot_id (''Frontsight azimuth must be 0-359'' @ deg)) @
     append_if (present_and (azimuth_bs s) (\<lambda>a. flt a (Finite 0) \<or> fge a (Finite 360)))
       (shot_msg shot_id (''Backsight azimuth must be 0-359'' @ deg)) @
     append_if (present_and (inclination_fs s) (\<lambda>a. flt a (Finite (- 90)) \<or> fgt a (Finite 90)))
       (shot_msg shot_id (''Frontsight inclination must be -90'' @ deg @ '' to 90'' @ deg)) @
     append_if (present_and (inclination_bs s) (\<lambda>a. flt a (Finite (- 90)) \<or> fgt a (Finite 90)))
       (shot_msg shot_id (''Backsight inclination must be -90'' @ deg @ '' to 90'' @ deg)) @
     append_if (flt (left s) (Finite 0) \<or> flt (right s) (Finite 0) \<or>
                flt (up s) (Finite 0) \<or> flt (down s) (Finite 0))
       (shot_msg shot_id ''LRUD values cannot be negative'') @
     append_if (length (from_station s) > 20)
       (shot_msg shot_id ''From station name too long (max 20 characters)'') @
     append_if (length (to_station s) > 20)
       (shot_msg shot_id ''To station name too long (max 20 characters)'')"
  unfolding shot_violations_def
  by (simp split: option.splits)


subsection \<open>The scenario and its variants, evaluated\<close>

lemmas header_eval =
  header_check_def header_checks_def required_def confirmed_def reading_check_def
  text_field_def form_get_default_def form_get_def checkbox_def form_of_def scenario_def
  strip_plain strip_Nil isspace_def

lemmas rows_eval =
  all_messages_def all_shots_def row_messages_def row_shots_def
  both_stations_given_def parse_shot_def float_or_none_cases float_or_zero_cases note_at_cases
  bind_exn_def py_index_def getlist_def form_of_def scenario_def strip_plain strip_Nil isspace_def
  shot_violations_eq append_if_def present_and_def shot_msg_def str_nat.simps digit_char_def
  fge_def fgt_def

lemmas decimal_eval = decimal_float_def unsigned_value_def Let_def strip_plain isspace_def

lemma dec_lits:
  "decimal_float ''10'' = Inr (Finite 10)"
  "decimal_float ''90'' = Inr (Finite 90)"
  "decimal_float ''0'' = Inr (Finite 0)"
  "decimal_float ''nan'' = Inr NaN"
  by (simp_all add: decimal_eval)

lemma header_scenario: "header_check pf (form_of scenario) = None"
  by (simp add: header_eval)

lemma rows_scenario:
  "all_messages decimal_float (form_of scenario) = []"
  "all_shots decimal_float (form_of scenario) = [sample_shot]"
  by (simp_all add: rows_eval decimal_eval sample_shot_def)

lemma first_violation_Some:
  "first_violation cs = Some m \<longleftrightarrow>
     (\<exists>k < length cs. cs ! k = Some m \<and> (\<forall>j < k. cs ! j = None))"
proof (induction cs rule: first_violation.induct)
  case 1
  then show ?case by simp
next
  case (2 m' cs)
  show ?case
  proof
    assume "first_violation (Some m' # cs) = Some m"
    then have "(Some m' # cs) ! 0 = Some m \<and> (\<forall>j < 0. (Some m' # cs) ! j = None)" by simp
    then show "\<exists>k < length (Some m' # cs). (Some m' # cs) ! k = Some m \<and> (\<forall>j < k. (Some m' # cs) ! j = None)"
      by (intro exI [of _ 0]) simp
  next
    assume "\<exists>k < length (Some m' # cs). (Some m' # cs) ! k = Some m \<and> (\<forall>j < k. (Some m' # cs) ! j = None)"
    then obtain k where k: "(Some m' # cs) ! k = Some m" "\<forall>j < k. (Some m' # cs) ! j = None" by blast
    have "k = 0"
    proof (rule ccontr)
      assume "k \<noteq> 0"
      then have "(Some m' # cs) ! 0 = None" using k(2) by blast
      then show False by simp
    qed
    then show "first_violation (Some m' # cs) = Some m" using k(1) by simp
  qed
next
  case (3 cs)
  show ?case
  proof
    assume "first_violation (None # cs) = Some m"
    then obtain k where "k < length cs" "cs ! k = Some m" "\<forall>j < k. cs ! j = None"
      using 3 by auto
    then have "Suc k < length (None # cs) \<and> (None # cs) ! Suc k = Some m \<and> (\<forall>j < Suc k. (None # cs) ! j = None)"
      by (auto simp: nth_Cons')
    then show "\<exists>k < length (None # cs). (None # cs) ! k = Some m \<and> (\<forall>j < k. (None # cs) ! j = None)"
      by blast
  next
    assume "\<exists>k < length (None # cs). (None # cs) ! k = Some m \<and> (\<forall>j < k. (None # cs) ! j = None)"
    then obtain k where k: "k < length (None # cs)" "(None # cs) ! k = Some m" "\<forall>j < k. (None # cs) ! j = None" by blast
    then obtain k' where k': "k = Suc k'" by (cases k) auto
    have "k' < length cs" "cs ! k' = Some m" using k(1,2) by (simp_all add: k')
    moreover have "\<forall>j < k'. cs ! j = None"
    proof (intro allI impI)
      fix j assume "j < k'"
      then have "Suc j < k" by (simp add: k')
      then have "(None # cs) ! Suc j = None" using k(3) by blast
      then show "cs ! j = None" by simp
    qed
    ultimately show "first_violation (None # cs) = Some m" using 3 by auto
  qed
qed

lemma without_compass_id_header:
  "header_check pf without_compass_id = Some ''Compass ID is required.''"
  by (simp add: without_compass_id_def header_eval)

lemma six_violations_header: "header_check pf six_violations = None"
  by (simp add: six_violations_def header_eval)

lemma six_violations_messages:
  "all_messages decimal_float six_violations =
     [''Shot 1: Distance cannot be negative'',
      ''Shot 1: Frontsight azimuth must be 0-359'' @ deg,
      ''Shot 1: Backsight azimuth must be 0-359'' @ deg,
      ''Shot 1: Frontsight inclination must be -90'' @ deg @ '' to 90'' @ deg,
      ''Shot 1: Backsight inclination must be -90'' @ deg @ '' to 90'' @ deg,
      ''Shot 1: LRUD values cannot be negative'']"
  by (simp add: six_violations_def rows_eval decimal_eval)

lemma two_header_violations_eval:
  "header_check pf two_header_violations = Some ''Cave name is required.''"
  "header_checks pf two_header_violations ! 1 = Some ''Survey date is required.''"
  by (simp_all add: two_header_violations_def header_eval)

lemma two_header_violations_messages:
  "all_messages decimal_float two_header_violations = [''Shot 1: Distance cannot be negative'']"
  by (simp add: two_header_violations_def rows_eval decimal_eval)

lemma row_messages_in_all:
  assumes "i < length (getlist F ''from_station[]'')" "row_messages pf F i \<noteq> []"
  shows "all_messages pf F \<noteq> []"
proof -
  have "row_messages pf F i \<in> set (map (row_messages pf F) [0 ..< length (getlist F ''from_station[]'')])"
    using assms(1) by simp
  then show ?thesis using assms(2) unfolding all_messages_def by (auto simp del: set_map map_eq_conv)
qed

lemma variant_headers:
  "header_check pf unparsable_distance = None"
  "header_check pf negative_distance = None"
  "header_check pf blank_to_station = None"
  by (simp_all add: unparsable_distance_def negative_distance_def blank_to_station_def header_eval)

lemma variant_rows:
  "all_messages decimal_float unparsable_distance =
     [''Shot 1: Invalid numeric value - could not convert string to float: '' @ [CHR 0x27] @ ''abc'' @ [CHR 0x27]]"
  "all_messages decimal_float negative_distance = [''Shot 1: Distance cannot be negative'']"
  "all_messages decimal_float blank_to_station = []"
  "all_shots decimal_float blank_to_station = []"
  by (simp_all add: unparsable_distance_def negative_distance_def blank_to_station_def
        rows_eval decimal_eval)

lemma variant_selected:
  "row_selected unparsable_distance 0 = Inr True"
  "row_selected negative_distance 0 = Inr True"
  "row_selected blank_to_station 0 = Inr False"
  "length (getlist unparsable_distance ''from_station[]'') = 1"
  "length (getlist negative_distance ''from_station[]'') = 1"
  "length (getlist blank_to_station ''from_station[]'') = 1"
  by (simp_all add: unparsable_distance_def negative_distance_def blank_to_station_def
        row_selected_def rows_eval)

lemma variant_parse:
  "parse_shot decimal_float unparsable_distance 0 =
     Inl (ValueError (''could not convert string to float: '' @ [CHR 0x27] @ ''abc'' @ [CHR 0x27]))"
  "parse_shot decimal_float negative_distance 0 =
     Inr ([''Shot 1: Distance cannot be negative''], sample_shot\<lparr>distance := Some (Finite (- 1))\<rparr>)"
  by (simp_all add: unparsable_distance_def negative_distance_def sample_shot_def
        rows_eval decimal_eval)

subsection \<open>The shot lists of the two handlers\<close>

lemma value_at_eq: "value_at xs i = Inr (field_at xs i)"
  by (simp add: value_at_def field_at_def py_index_def)

lemma build_shot_eq:
  "i < length (getlist F ''from_station[]'') \<Longrightarrow> build_shot F i = Inr (raw_shot_at F i)"
  by (simp add: build_shot_def value_at_eq bind_exn_def py_index_def raw_shot_at_def)

lemma build_shots_eq:
  "\<forall>i \<in> set is. i < length (getlist F ''from_station[]'') \<Longrightarrow>
   build_shots F is acc =
     Inr (acc @ map (raw_shot_at F)
                  (filter (\<lambda>i. strip (getlist F ''from_station[]'' ! i) \<noteq> []) is))"
proof (induction "is" arbitrary: acc)
  case Nil
  show ?case by simp
next
  case (Cons i "is")
  then show ?case
    by (simp add: build_shot_eq bind_exn_def py_index_def)
qed

lemma build_shots_all:
  "build_shots F [0 ..< length (getlist F ''from_station[]'')] [] =
     Inr (map (raw_shot_at F)
            (filter (\<lambda>i. strip (getlist F ''from_station[]'' ! i) \<noteq> [])
               [0 ..< length (getlist F ''from_station[]'')]))"
  using build_shots_eq [of "[0 ..< length (getlist F ''from_station[]'')]" F "[]"]
  by simp

lemma admin_survey_update_eq:
  "admin_survey_update a sid F d =
     (if \<not> a then (Login_required, d)
      else if text_field F ''cave_name'' = [] \<or> text_field F ''survey_date'' = [] then
        (Rejected [''Cave name and survey date are required.''], d)
      else (Rejected [''Error updating survey: name '' @ [CHR 0x27] @ ''cursor'' @ [CHR 0x27] @
                      '' is not defined''], d))"
  by (simp add: admin_survey_update_def build_shots_all get_cave_survey_db_connection_def)

lemma row_shots_stations:
  assumes i: "i < length (getlist F ''from_station[]'')"
  shows "stations (row_shots pf F i) =
         (if both_stations_given F i \<and> (\<exists>r. parse_shot pf F i = Inr r)
          then [(strip (getlist F ''from_station[]'' ! i), strip (getlist F ''to_station[]'' ! i))]
          else [])"
proof (cases "both_stations_given F i")
  case False
  then show ?thesis by (simp add: row_shots_def stations_def)
next
  case True
  then have t: "i < length (getlist F ''to_station[]'')" by (simp add: both_stations_given_def)
  consider (Invalid) m where "parse_shot pf F i = Inl (ValueError m)"
    | (Parsed) vs s where "parse_shot pf F i = Inr (vs, s)"
    using parse_shot_cases [OF i t, where pf = pf] by blast
  then show ?thesis
  proof cases
    case (Invalid m)
    then show ?thesis using True by (simp add: row_shots_def stations_def)
  next
    case (Parsed vs s)
    have "from_station s = strip (getlist F ''from_station[]'' ! i)"
      using parse_shot_Inr(11) [OF Parsed] i by (simp add: py_index_def)
    moreover have "to_station s = strip (getlist F ''to_station[]'' ! i)"
      using parse_shot_Inr(12) [OF Parsed] t by (simp add: py_index_def)
    ultimately show ?thesis using True Parsed by (simp add: row_shots_def stations_def)
  qed
qed

lemma rows_stations:
  "\<forall>i \<in> set is. i < length (getlist F ''from_station[]'') \<Longrightarrow>
   stations (concat (map (row_shots pf F) is)) =
     map (\<lambda>i. (strip (getlist F ''from_station[]'' ! i), strip (getlist F ''to_station[]'' ! i)))
       (filter (\<lambda>i. both_stations_given F i \<and> (\<exists>r. parse_shot pf F i = Inr r)) is)"
proof (induction "is")
  case Nil
  show ?case by (simp add: stations_def)
next
  case (Cons i "is")
  have "stations (concat (map (row_shots pf F) (i # is))) =
        stations (row_shots pf F i) @ stations (concat (map (row_shots pf F) is))"
    by (simp add: stations_def)
  then show ?case using Cons by (simp add: row_shots_stations)
qed

lemma quiet_row_parses:
  assumes i: "i < length (getlist F ''from_station[]'')"
    and g: "both_stations_given F i" and m: "row_messages pf F i = []"
  shows "\<exists>r. parse_shot pf F i = Inr r"
proof -
  have t: "i < length (getlist F ''to_station[]'')" using g by (simp add: both_stations_given_def)
  consider (Invalid) e where "parse_shot pf F i = Inl (ValueError e)"
    | (Parsed) vs s where "parse_shot pf F i = Inr (vs, s)"
    using parse_shot_cases [OF i t, where pf = pf] by blast
  then show ?thesis
  proof cases
    case (Invalid e)
    then show ?thesis using g m by (simp add: row_messages_def)
  next
    case (Parsed vs s)
    then show ?thesis by blast
  qed
qed

lemma all_shots_stations:
  "stations (all_shots pf F) =
     map (\<lambda>i. (strip (getlist F ''from_station[]'' ! i), strip (getlist F ''to_station[]'' ! i)))
       (filter (\<lambda>i. both_stations_given F i \<and> (\<exists>r. parse_shot pf F i = Inr r))
          [0 ..< length (getlist F ''from_station[]'')])"
  unfolding all_shots_def by (intro rows_stations) simp

lemma quiet_shots_stations:
  assumes "all_messages pf F = []"
  shows "stations (all_shots pf F) =
     map (\<lambda>i. (strip (getlist F ''from_station[]'' ! i), strip (getlist F ''to_station[]'' ! i)))
       (filter (both_stations_given F) [0 ..< length (getlist F ''from_station[]'')])"
proof -
  have "filter (\<lambda>i. both_stations_given F i \<and> (\<exists>r. parse_shot pf F i = Inr r))
          [0 ..< length (getlist F ''from_station[]'')] =
        filter (both_stations_given F) [0 ..< length (getlist F ''from_station[]'')]"
  proof (intro filter_cong refl)
    fix i assume "i \<in> set [0 ..< length (getlist F ''from_station[]'')]"
    then have i: "i < length (getlist F ''from_station[]'')" by simp
    then have "row_messages pf F i = []"
      using assms row_messages_in_all by blast
    then show "(both_stations_given F i \<and> (\<exists>r. parse_shot pf F i = Inr r)) =
               both_stations_given F i"
      using quiet_row_parses [OF i] by blast
  qed
  then show ?thesis by (simp add: all_shots_stations)
qed

lemma edit_form_lists:
  "getlist edit_form ''from_station[]'' = [''A1'', ''A2'']"
  "getlist edit_form ''to_station[]'' = [''A2'', []]"
  by (simp_all add: edit_form_def getlist_def form_of_def)

lemma edit_form_fields:
  "text_field edit_form ''cave_name'' = ''Test Cave''"
  "text_field edit_form ''survey_date'' = ''2025-10-11''"
  by (simp_all add: edit_form_def header_eval)

lemma edit_form_rows:
  "all_messages decimal_float edit_form = []"
  "all_shots decimal_float edit_form = [sample_shot]"
  by (simp_all add: edit_form_def rows_eval decimal_eval sample_shot_def
        upt_rec [of 0] upt_rec [of 1] upt_rec [of 2])

lemma edit_form_raw_shots:
  "map (raw_shot_at edit_form)
     (filter (\<lambda>i. strip (getlist edit_form ''from_station[]'' ! i) \<noteq> [])
        [0 ..< length (getlist edit_form ''from_station[]'')]) =
     [\<lparr>r_from_station = ''A1'', r_to_station = ''A2'', r_distance = ''10'',
       r_azimuth_fs = ''90'', r_azimuth_bs = [], r_inclination_fs = ''0'',
       r_inclination_bs = [], r_left = [], r_right = [], r_up = [], r_down = [],
       r_notes = []\<rparr>,
      \<lparr>r_from_station = ''A2'', r_to_station = [], r_distance = [],
       r_azimuth_fs = [], r_azimuth_bs = [], r_inclination_fs = [],
       r_inclination_bs = [], r_left = [], r_right = [], r_up = [], r_down = [],
       r_notes = []\<rparr>]"
  by (simp add: edit_form_def raw_shot_at_def field_at_def getlist_def form_of_def
        scenario_def strip_plain isspace_def upt_rec [of 0] upt_rec [of 1] upt_rec [of 2])

lemma edit_form_selected:
  "filter (\<lambda>i. i < length (getlist edit_form ''to_station[]'') \<and>
                strip (getlist edit_form ''from_station[]'' ! i) \<noteq> [] \<and>
                strip (getlist edit_form ''to_station[]'' ! i) \<noteq> [])
     [0 ..< length (getlist edit_form ''from_station[]'')] = [0]"
  by (simp add: edit_form_lists strip_plain strip_Nil isspace_def
        upt_rec [of 0] upt_rec [of 1] upt_rec [of 2])

subsection \<open>Geometry reducer\<close>

text \<open>
  C1. The reducer returns \<open>(0, 0, 0)\<close> whenever one of distance, azimuth and inclination
  is absent; otherwise east is \<open>distance * cos inc * sin az\<close>, north is
  \<open>distance * cos inc * cos az\<close> and up is \<open>distance * sin inc\<close>, where \<open>inc\<close> and
  \<open>az\<close> are the inclination and the azimuth converted from degrees to radians
  (\<open>x * pi / 180\<close>).
\<close>

theorem shot_to_cartesian_spec:
  "(d = None \<or> a = None \<or> i = None \<longrightarrow> shot_to_cartesian d a i = (0, 0, 0)) \<and>
   (\<forall>dist az inc. d = Some dist \<and> a = Some az \<and> i = Some inc \<longrightarrow>
      shot_to_cartesian d a i =
        (dist * cos (inc * pi / 180) * sin (az * pi / 180),
         dist * cos (inc * pi / 180) * cos (az * pi / 180),
         dist * sin (inc * pi / 180)))"
  by (cases d; cases a; cases i) (simp_all add: radians_def Let_def)

theorem shot_to_cartesian_spec_witness:
  "shot_to_cartesian None (Some 90) (Some 0) = (0, 0, 0) \<and>
   shot_to_cartesian (Some 10) (Some 90) (Some 0) = (10, 0, 0)"
  using shot_to_cartesian_spec [of None "Some 90" "Some 0"]
        shot_to_cartesian_spec [of "Some 10" "Some 90" "Some 0"]
  by simp

subsection \<open>Shot validation\<close>

text \<open>
  C5. The claim has the per-shot validator produce a violation exactly when a present
  field is out of range. The comparisons of lines 1152-1171 miss one case: the form value
  \<^verbatim>\<open>nan\<close> is converted by \<^verbatim>\<open>float\<close>, lies in neither \<open>[0, 360)\<close> nor \<open>[-90, 90]\<close>,
  and passes every comparison. With \<^verbatim>\<open>nan\<close> as the frontsight azimuth of the scenario's
  shot, the row parses, no message is appended and the shot is counted as valid.
\<close>

theorem nan_azimuth_not_flagged:
  "getlist nan_azimuth ''azimuth_fs[]'' = [''nan''] \<and>
   decimal_float ''nan'' = Inr NaN \<and>
   fle (Finite 0) NaN = False \<and> flt NaN (Finite 360) = False \<and>
   parse_shot decimal_float nan_azimuth 0 = Inr ([], sample_shot\<lparr>azimuth_fs := Some NaN\<rparr>) \<and>
   process_shots decimal_float nan_azimuth =
     Inr ([], [sample_shot\<lparr>azimuth_fs := Some NaN\<rparr>], 1)"
proof -
  have 1: "parse_shot decimal_float nan_azimuth 0 =
           Inr ([], sample_shot\<lparr>azimuth_fs := Some NaN\<rparr>)"
    by (simp add: nan_azimuth_def sample_shot_def rows_eval decimal_eval)
  have 2: "all_messages decimal_float nan_azimuth = []"
    "all_shots decimal_float nan_azimuth = [sample_shot\<lparr>azimuth_fs := Some NaN\<rparr>]"
    by (simp_all add: nan_azimuth_def sample_shot_def rows_eval decimal_eval)
  have 3: "getlist nan_azimuth ''azimuth_fs[]'' = [''nan'']"
    by (simp add: nan_azimuth_def getlist_def form_of_def)
  show ?thesis
    by (simp add: 1 2 3 process_shots_all dec_lits)
qed



subsection \<open>Arrays of unequal lengths\<close>

text \<open>
  C10. Whatever the lengths of the per-field arrays, parsing the shots raises no
  \<^verbatim>\<open>IndexError\<close>: the loop always returns its accumulators; a row beyond the end of
  the to-stations is skipped; and in a parsed row a field whose array ends before the row
  is absent: \<open>None\<close> for the distance and the four angles, 0 for left, right, up and
  down, the empty string for the note.
\<close>

theorem shot_parsing_never_index_error:
  "(\<exists>r. process_shots pf F = Inr r) \<and>
   (\<forall>i < length (getlist F ''from_station[]'').
      row_selected F i \<noteq> Inl IndexError \<and>
      (length (getlist F ''to_station[]'') \<le> i \<longrightarrow> row_selected F i = Inr False) \<and>
      (row_selected F i = Inr True \<longrightarrow>
         parse_shot pf F i \<noteq> Inl IndexError \<and>
         (\<forall>vs s. parse_shot pf F i = Inr (vs, s) \<longrightarrow>
            (length (getlist F ''distance[]'') \<le> i \<longrightarrow> distance s = None) \<and>
            (length (getlist F ''azimuth_fs[]'') \<le> i \<longrightarrow> azimuth_fs s = None) \<and>
            (length (getlist F ''azimuth_bs[]'') \<le> i \<longrightarrow> azimuth_bs s = None) \<and>
            (length (getlist F ''inclination_fs[]'') \<le> i \<longrightarrow> inclination_fs s = None) \<and>
            (length (getlist F ''inclination_bs[]'') \<le> i \<longrightarrow> inclination_bs s = None) \<and>
            (length (getlist F ''left[]'') \<le> i \<longrightarrow> left s = Finite 0) \<and>
            (length (getlist F ''right[]'') \<le> i \<longrightarrow> right s = Finite 0) \<and>
            (length (getlist F ''up[]'') \<le> i \<longrightarrow> up s = Finite 0) \<and>
            (length (getlist F ''down[]'') \<le> i \<longrightarrow> down s = Finite 0) \<and>
            (length (getlist F ''notes[]'') \<le> i \<longrightarrow> shot_note s = []))))"
proof (intro conjI allI impI)
  show "\<exists>r. process_shots pf F = Inr r"
    by (simp add: process_shots_eq Let_def)
next
  fix i assume i: "i < length (getlist F ''from_station[]'')"
  show "row_selected F i \<noteq> Inl IndexError"
    by (simp add: row_selected_cases [OF i])
  show "row_selected F i = Inr False" if "length (getlist F ''to_station[]'') \<le> i"
    using that by (simp add: row_selected_cases [OF i] both_stations_given_def)
  show "parse_shot pf F i \<noteq> Inl IndexError" if "row_selected F i = Inr True"
    using that i by (simp add: row_selected_cases [OF i] both_stations_given_def parse_shot_no_index)
next
  fix i vs s
  assume p: "parse_shot pf F i = Inr (vs, s)"
  { assume "length (getlist F ''distance[]'') \<le> i"
    then show "distance s = None"
      using parse_shot_Inr(1) [OF p] by (simp add: float_or_none_short) }
  { assume "length (getlist F ''azimuth_fs[]'') \<le> i"
    then show "azimuth_fs s = None"
      using parse_shot_Inr(2) [OF p] by (simp add: float_or_none_short) }
  { assume "length (getlist F ''azimuth_bs[]'') \<le> i"
    then show "azimuth_bs s = None"
      using parse_shot_Inr(3) [OF p] by (simp add: float_or_none_short) }
  { assume "length (getlist F ''inclination_fs[]'') \<le> i"
    then show "inclination_fs s = None"
      using parse_shot_Inr(4) [OF p] by (simp add: float_or_none_short) }
  { assume "length (getlist F ''inclination_bs[]'') \<le> i"
    then show "inclination_bs s = None"
      using parse_shot_Inr(5) [OF p] by (simp add: float_or_none_short) }
  { assume "length (getlist F ''left[]'') \<le> i"
    then show "left s = Finite 0"
      using parse_shot_Inr(6) [OF p] by (simp add: float_or_zero_short) }
  { assume "length (getlist F ''right[]'') \<le> i"
    then show "right s = Finite 0"
      using parse_shot_Inr(7) [OF p] by (simp add: float_or_zero_short) }
  { assume "length (getlist F ''up[]'') \<le> i"
    then show "up s = Finite 0"
      using parse_shot_Inr(8) [OF p] by (simp add: float_or_zero_short) }
  { assume "length (getlist F ''down[]'') \<le> i"
    then show "down s = Finite 0"
      using parse_shot_Inr(9) [OF p] by (simp add: float_or_zero_short) }
  { assume "length (getlist F ''notes[]'') \<le> i"
    then show "shot_note s = []"
      using parse_shot_Inr(10) [OF p] by (simp add: note_at_short) }
qed

theorem shot_parsing_never_index_error_witness:
  "(1::nat) < length (getlist ragged_form ''from_station[]'') \<and>
   length (getlist ragged_form ''distance[]'') \<le> 1 \<and>
   row_selected ragged_form 1 = Inr True \<and>
   row_selected ragged_form 2 = Inr False \<and>
   parse_shot decimal_float ragged_form 1 =
     Inr ([], \<lparr>from_station = ''A2'', to_station = ''A3'', distance = None,
               azimuth_fs = None, azimuth_bs = None, inclination_fs = None,
               inclination_bs = None, left = Finite 0, right = Finite 0, up = Finite 0,
               down = Finite 0,
               shot_note = []\<rparr>) \<and>
   (\<exists>r. process_shots decimal_float ragged_form = Inr r)"
  using shot_parsing_never_index_error [of decimal_float ragged_form]
  by (simp add: parse_shot_def row_selected_def ragged_form_def form_of_def getlist_def
        float_or_none_cases float_or_zero_cases note_at_cases bind_exn_def py_index_def
        strip_plain isspace_def Let_def shot_violations_eq append_if_def present_and_def)

subsection \<open>The end-to-end scenario\<close>

text \<open>
  C7. The claim has the scenario of section 8 persisted (one header, one normalized
  survey, one shot, one cave, the people and their assignments) and answered with success
  and shot count 1. The scenario passes the header checks and the shot checks with one
  valid shot; the first statement of the persistence step, the \<^verbatim>\<open>INSERT\<close> of line 1240,
  is written with \<^verbatim>\<open>?\<close> and refused by the driver, so the handler answers that the
  submission failed and no row is written.
\<close>

theorem scenario_submission_fails:
  "header_check decimal_float (form_of scenario) = None \<and>
   process_shots decimal_float (form_of scenario) = Inr ([], [sample_shot], 1) \<and>
   survey_submit decimal_float (form_of scenario) empty_db =
     (Rejected [''Survey submission failed: not all arguments converted during string formatting''],
      empty_db)"
  by (simp add: header_scenario process_shots_all rows_scenario survey_submit_failed)

subsection \<open>Resolving the cave\<close>

text \<open>
  C8. The claim has two submissions in sequence, with the same cave name, county and
  state, create exactly one cave row. Each of the two runs of the scenario stops at the
  refused \<^verbatim>\<open>INSERT\<close> of line 1240, before the cave is looked up: after both runs the
  table of caves holds no row.
\<close>

theorem resubmission_writes_no_cave:
  "fst (survey_submit decimal_float (form_of scenario) empty_db) =
     Rejected [''Survey submission failed: not all arguments converted during string formatting''] \<and>
   fst (survey_submit decimal_float (form_of scenario)
          (snd (survey_submit decimal_float (form_of scenario) empty_db))) =
     Rejected [''Survey submission failed: not all arguments converted during string formatting''] \<and>
   caves (snd (survey_submit decimal_float (form_of scenario)
          (snd (survey_submit decimal_float (form_of scenario) empty_db)))) = []"
proof -
  have r: "survey_submit decimal_float (form_of scenario) d =
     (Rejected [''Survey submission failed: not all arguments converted during string formatting''], d)"
    for d
    by (simp add: header_scenario rows_scenario survey_submit_failed)
  show ?thesis by (simp add: r empty_db_def)
qed

subsection \<open>Rejected submissions\<close>

text \<open>
  C2. A rejected submission writes no row to any table: whenever the handler answers with
  errors the six tables are as before. The handler does so when a header check fails
  (a missing compass id among them), when a field of a selected row does not parse as a
  number, when a selected row breaks a validation rule, and when no row is selected.
\<close>

theorem rejected_submission_writes_nothing:
  "(\<forall>ms. fst (survey_submit pf F d) = Rejected ms \<longrightarrow> snd (survey_submit pf F d) = d) \<and>
   (header_check pf F \<noteq> None \<longrightarrow> (\<exists>ms. survey_submit pf F d = (Rejected ms, d))) \<and>
   (text_field F ''compass_id'' = [] \<longrightarrow> (\<exists>ms. survey_submit pf F d = (Rejected ms, d))) \<and>
   (i < length (getlist F ''from_station[]'') \<and> row_selected F i = Inr True \<and>
    (\<exists>e. parse_shot pf F i = Inl (ValueError e)) \<longrightarrow>
      (\<exists>ms. survey_submit pf F d = (Rejected ms, d))) \<and>
   (i < length (getlist F ''from_station[]'') \<and> row_selected F i = Inr True \<and>
    (\<exists>vs s. parse_shot pf F i = Inr (vs, s) \<and> vs \<noteq> []) \<longrightarrow>
      (\<exists>ms. survey_submit pf F d = (Rejected ms, d))) \<and>
   ((\<forall>j < length (getlist F ''from_station[]''). row_selected F j = Inr False) \<longrightarrow>
      (\<exists>ms. survey_submit pf F d = (Rejected ms, d)))"
proof -
  obtain ms where r: "survey_submit pf F d = (Rejected ms, d)"
    using survey_submit_rejects by blast
  show ?thesis by (simp add: r)
qed

theorem rejected_submission_writes_nothing_witness:
  "survey_submit decimal_float without_compass_id one_survey_db =
     (Rejected [''Compass ID is required.''], one_survey_db) \<and>
   survey_submit decimal_float unparsable_distance one_survey_db =
     (Rejected [''Shot 1: Invalid numeric value - could not convert string to float: '' @
                [CHR 0x27] @ ''abc'' @ [CHR 0x27]], one_survey_db) \<and>
   survey_submit decimal_float negative_distance one_survey_db =
     (Rejected [''Shot 1: Distance cannot be negative''], one_survey_db) \<and>
   survey_submit decimal_float blank_to_station one_survey_db =
     (Rejected [''At least one survey shot is required.''], one_survey_db) \<and>
   length (survey_header one_survey_db) = 1"
proof -
  have 1: "survey_submit decimal_float without_compass_id one_survey_db =
     (Rejected [''Compass ID is required.''], one_survey_db)"
    using rejected_submission_writes_nothing [of decimal_float without_compass_id one_survey_db 0]
    by (simp add: survey_submit_header without_compass_id_header)
  have 2: "survey_submit decimal_float unparsable_distance one_survey_db =
     (Rejected [''Shot 1: Invalid numeric value - could not convert string to float: '' @
                [CHR 0x27] @ ''abc'' @ [CHR 0x27]], one_survey_db)"
    using rejected_submission_writes_nothing [of decimal_float unparsable_distance one_survey_db 0]
    by (simp add: survey_submit_messages variant_headers variant_rows variant_selected
          variant_parse surfaced_def)
  have 3: "survey_submit decimal_float negative_distance one_survey_db =
     (Rejected [''Shot 1: Distance cannot be negative''], one_survey_db)"
    using rejected_submission_writes_nothing [of decimal_float negative_distance one_survey_db 0]
    by (simp add: survey_submit_messages variant_headers variant_rows variant_selected
          variant_parse surfaced_def)
  have 4: "survey_submit decimal_float blank_to_station one_survey_db =
     (Rejected [''At least one survey shot is required.''], one_survey_db)"
    using rejected_submission_writes_nothing [of decimal_float blank_to_station one_survey_db 0]
    by (simp add: survey_submit_empty variant_headers variant_rows variant_selected)
  have 5: "length (survey_header one_survey_db) = 1"
    by (simp add: one_survey_db_def empty_db_def)
  show ?thesis using 1 2 3 4 5 by simp
qed

text \<open>
  C6, as amended. When a header check fails, the first failing check, in the order of the
  checks, is the only message surfaced, and no shot-level message comes with it. When the
  header passes and the rows give messages, the first five of them are surfaced in one
  pass, followed by a count-suffix message when there are more than five. The messages
  of the rows are what the loop collects: for each selected row, in order, its parse
  failure or its range violations.
\<close>

theorem violations_surfaced:
  "process_shots pf F = Inr (all_messages pf F, all_shots pf F, length (all_shots pf F)) \<and>
   (header_check pf F = Some m \<longleftrightarrow>
      (\<exists>k < length (header_checks pf F).
         header_checks pf F ! k = Some m \<and> (\<forall>j < k. header_checks pf F ! j = None))) \<and>
   (header_check pf F = Some m \<longrightarrow> survey_submit pf F d = (Rejected [m], d)) \<and>
   (header_check pf F = None \<and> all_messages pf F \<noteq> [] \<longrightarrow>
      survey_submit pf F d =
        (Rejected
           (take 5 (all_messages pf F) @
            (if 5 < length (all_messages pf F)
             then [''... and '' @ str_nat (length (all_messages pf F) - 5) @
                   '' more validation errors'']
             else [])), d))"
  using survey_submit_header [of pf F m d] survey_submit_messages [of pf F d]
  by (simp add: header_check_def first_violation_Some surfaced_def process_shots_all)

theorem violations_surfaced_witness:
  "survey_submit decimal_float without_compass_id empty_db =
     (Rejected [''Compass ID is required.''], empty_db) \<and>
   survey_submit decimal_float six_violations empty_db =
     (Rejected
        [''Shot 1: Distance cannot be negative'',
         ''Shot 1: Frontsight azimuth must be 0-359'' @ deg,
         ''Shot 1: Backsight azimuth must be 0-359'' @ deg,
         ''Shot 1: Frontsight inclination must be -90'' @ deg @ '' to 90'' @ deg,
         ''Shot 1: Backsight inclination must be -90'' @ deg @ '' to 90'' @ deg,
         ''... and 1 more validation errors''], empty_db)"
  using violations_surfaced [of decimal_float without_compass_id "''Compass ID is required.''" empty_db]
        violations_surfaced [of decimal_float six_violations m empty_db]
  by (simp add: without_compass_id_header six_violations_header six_violations_messages
        str_nat.simps digit_char_def)

text \<open>
  The claim as first stated has all header-level violations surfaced together with the
  shot-level ones. A submission without cave name and survey date, whose shot has a
  negative distance, is answered with the first header message alone.
\<close>

theorem violations_surfaced_counterexample:
  "header_checks decimal_float two_header_violations ! 0 = Some ''Cave name is required.'' \<and>
   header_checks decimal_float two_header_violations ! 1 = Some ''Survey date is required.'' \<and>
   all_messages decimal_float two_header_violations = [''Shot 1: Distance cannot be negative''] \<and>
   fst (survey_submit decimal_float two_header_violations empty_db) =
     Rejected [''Cave name is required.'']"
  by (simp add: two_header_violations_eval two_header_violations_messages survey_submit_header)
     (simp add: two_header_violations_def header_eval)

subsection \<open>The edit flow\<close>

text \<open>
  C9. The claim has an edit replace the header's stored shot sequence wholesale and leave
  the normalized tables alone. An authenticated edit of survey 1, with cave name and
  survey date, builds its shot list and then evaluates \<^verbatim>\<open>cursor.execute\<close> at line 729,
  where \<^verbatim>\<open>cursor\<close> is bound to nothing: the handler answers with the error and every
  table, \<^verbatim>\<open>survey_header\<close> included, is as before.
\<close>

theorem edit_stores_nothing:
  "col (survey_header one_survey_db ! 0) ''survey_shots_json'' = CShots [sample_shot] \<and>
   admin_survey_update True 1 edit_form one_survey_db =
     (Rejected [''Error updating survey: name '' @ [CHR 0x27] @ ''cursor'' @ [CHR 0x27] @
                '' is not defined''], one_survey_db)"
  by (simp add: admin_survey_update_eq edit_form_fields)
     (simp add: one_survey_db_def empty_db_def col_def)

subsection \<open>Which rows become shots\<close>

text \<open>
  C3, as amended. The shot list the submission builds holds, in order and trimmed,
  exactly the rows whose from-station and to-station are both non-empty after trimming
  and whose numbers parse, so exactly the rows with both stations when no message was
  collected; from-stations A1, A2 with to-stations A2 and blank give exactly one shot.
  The shot list the edit flow builds holds exactly the rows whose from-station is
  non-empty after trimming, whatever their to-station.
\<close>

theorem shot_lists_built:
  "(process_shots pf F = Inr (errs, ss, n) \<longrightarrow>
      n = length ss \<and>
      stations ss =
        map (\<lambda>i. (strip (getlist F ''from_station[]'' ! i),
                   strip (getlist F ''to_station[]'' ! i)))
          (filter (\<lambda>i. (i < length (getlist F ''to_station[]'') \<and>
                         strip (getlist F ''from_station[]'' ! i) \<noteq> [] \<and>
                         strip (getlist F ''to_station[]'' ! i) \<noteq> []) \<and>
                        (\<exists>r. parse_shot pf F i = Inr r))
             [0 ..< length (getlist F ''from_station[]'')]) \<and>
      (errs = [] \<longrightarrow>
         stations ss =
           map (\<lambda>i. (strip (getlist F ''from_station[]'' ! i),
                      strip (getlist F ''to_station[]'' ! i)))
             (filter (\<lambda>i. i < length (getlist F ''to_station[]'') \<and>
                           strip (getlist F ''from_station[]'' ! i) \<noteq> [] \<and>
                           strip (getlist F ''to_station[]'' ! i) \<noteq> [])
                [0 ..< length (getlist F ''from_station[]'')]))) \<and>
   build_shots F [0 ..< length (getlist F ''from_station[]'')] [] =
     Inr (map (raw_shot_at F)
            (filter (\<lambda>i. strip (getlist F ''from_station[]'' ! i) \<noteq> [])
               [0 ..< length (getlist F ''from_station[]'')]))"
proof (intro conjI impI)
  assume p: "process_shots pf F = Inr (errs, ss, n)"
  then have e: "errs = all_messages pf F" and s: "ss = all_shots pf F"
    and n: "n = length ss"
    by (auto simp add: process_shots_all)
  show "n = length ss" by (rule n)
  show "stations ss =
        map (\<lambda>i. (strip (getlist F ''from_station[]'' ! i),
                   strip (getlist F ''to_station[]'' ! i)))
          (filter (\<lambda>i. (i < length (getlist F ''to_station[]'') \<and>
                         strip (getlist F ''from_station[]'' ! i) \<noteq> [] \<and>
                         strip (getlist F ''to_station[]'' ! i) \<noteq> []) \<and>
                        (\<exists>r. parse_shot pf F i = Inr r))
             [0 ..< length (getlist F ''from_station[]'')])"
    using all_shots_stations [of pf F] by (simp add: s both_stations_given_def)
  show "stations ss =
           map (\<lambda>i. (strip (getlist F ''from_station[]'' ! i),
                      strip (getlist F ''to_station[]'' ! i)))
             (filter (\<lambda>i. i < length (getlist F ''to_station[]'') \<and>
                           strip (getlist F ''from_station[]'' ! i) \<noteq> [] \<and>
                           strip (getlist F ''to_station[]'' ! i) \<noteq> [])
                [0 ..< length (getlist F ''from_station[]'')])" if "errs = []"
    using quiet_shots_stations [of pf F] that e by (simp add: s both_stations_given_def [abs_def])
next
  show "build_shots F [0 ..< length (getlist F ''from_station[]'')] [] =
     Inr (map (raw_shot_at F)
            (filter (\<lambda>i. strip (getlist F ''from_station[]'' ! i) \<noteq> [])
               [0 ..< length (getlist F ''from_station[]'')]))"
    by (rule build_shots_all)
qed

theorem shot_lists_built_witness:
  "getlist edit_form ''from_station[]'' = [''A1'', ''A2''] \<and>
   getlist edit_form ''to_station[]'' = [''A2'', []] \<and>
   process_shots decimal_float edit_form = Inr ([], [sample_shot], 1) \<and>
   stations [sample_shot] = [(''A1'', ''A2'')] \<and>
   (\<exists>first second.
      build_shots edit_form [0 ..< length (getlist edit_form ''from_station[]'')] [] =
        Inr [first, second] \<and> r_to_station second = [])"
proof -
  have p: "process_shots decimal_float edit_form = Inr ([], [sample_shot], 1)"
    by (simp add: process_shots_all edit_form_rows)
  note t = shot_lists_built [of decimal_float edit_form "[]" "[sample_shot]" 1]
  have "stations [sample_shot] =
           map (\<lambda>i. (strip (getlist edit_form ''from_station[]'' ! i),
                      strip (getlist edit_form ''to_station[]'' ! i)))
             (filter (\<lambda>i. i < length (getlist edit_form ''to_station[]'') \<and>
                           strip (getlist edit_form ''from_station[]'' ! i) \<noteq> [] \<and>
                           strip (getlist edit_form ''to_station[]'' ! i) \<noteq> [])
                [0 ..< length (getlist edit_form ''from_station[]'')])"
    using t p by blast
  then have st: "stations [sample_shot] = [(''A1'', ''A2'')]"
    unfolding edit_form_selected by (simp add: edit_form_lists strip_plain isspace_def)
  have "build_shots edit_form [0 ..< length (getlist edit_form ''from_station[]'')] [] =
     Inr (map (raw_shot_at edit_form)
            (filter (\<lambda>i. strip (getlist edit_form ''from_station[]'' ! i) \<noteq> [])
               [0 ..< length (getlist edit_form ''from_station[]'')]))"
    using t by blast
  then have b: "\<exists>first second.
      build_shots edit_form [0 ..< length (getlist edit_form ''from_station[]'')] [] =
        Inr [first, second] \<and> r_to_station second = []"
    unfolding edit_form_raw_shots by simp
  show ?thesis using p st b by (simp add: edit_form_lists)
qed

text \<open>
  The claim as first stated asks the edit flow, too, for a non-empty to-station. An edit
  with from-stations A1, A2 and to-stations A2 and blank builds two shots, the second
  with an empty to-station.
\<close>

theorem edit_keeps_blank_to_station_counterexample:
  "getlist edit_form ''from_station[]'' = [''A1'', ''A2''] \<and>
   getlist edit_form ''to_station[]'' = [''A2'', []] \<and>
   build_shots edit_form [0 ..< length (getlist edit_form ''from_station[]'')] [] =
     Inr [\<lparr>r_from_station = ''A1'', r_to_station = ''A2'', r_distance = ''10'',
           r_azimuth_fs = ''90'', r_azimuth_bs = [], r_inclination_fs = ''0'',
           r_inclination_bs = [], r_left = [], r_right = [], r_up = [], r_down = [],
           r_notes = []\<rparr>,
          \<lparr>r_from_station = ''A2'', r_to_station = [], r_distance = [],
           r_azimuth_fs = [], r_azimuth_bs = [], r_inclination_fs = [],
           r_inclination_bs = [], r_left = [], r_right = [], r_up = [], r_down = [],
           r_notes = []\<rparr>]"
  by (simp add: build_shots_all edit_form_raw_shots) (simp add: edit_form_lists)

end
